theory Spec2Isabelle
  imports Main "HOL-Library.Char_ord" "HOL-Library.List_Lexorder"
begin

section \<open>Python values, strings and dictionaries\<close>

text \<open>
  Values that the charm configuration can hold (Juju options are strings, booleans or
  integers; an unset option reads as \<open>None\<close>). Strings are lists of code points below 256.
\<close>

datatype pyval = PyNone | PyBool bool | PyInt int | PyStr string

text \<open>Python truthiness, as used by \<open>if v\<close> and by \<open>or\<close>.\<close>

fun truthy :: "pyval \<Rightarrow> bool" where
  "truthy PyNone = False"
| "truthy (PyBool b) = b"
| "truthy (PyInt i) = (i \<noteq> 0)"
| "truthy (PyStr s) = (s \<noteq> [])"

text \<open>
  \<open>str(i)\<close> for an integer: the decimal digits of the magnitude, least significant first,
  then turned round and written as characters, after a minus sign for a negative number.
\<close>

function lsd_digits :: "nat \<Rightarrow> nat list" where
  "lsd_digits n = (if n div 10 = 0 then [n] else n mod 10 # lsd_digits (n div 10))"
  by pat_completeness auto
termination
  by (relation "measure id") auto

definition digit_char :: "nat \<Rightarrow> char" where
  "digit_char k = ''0123456789'' ! k"

definition py_int_str :: "int \<Rightarrow> string" where
  "py_int_str i =
     (if i < 0 then CHR ''-'' # map digit_char (rev (lsd_digits (nat (- i))))
      else map digit_char (rev (lsd_digits (nat i))))"

text \<open>What \<open>'{}'.format(v)\<close> inserts for a value.\<close>

fun py_str :: "pyval \<Rightarrow> string" where
  "py_str PyNone = ''None''"
| "py_str (PyBool b) = (if b then ''True'' else ''False'')"
| "py_str (PyInt i) = py_int_str i"
| "py_str (PyStr s) = s"

text \<open>\<open>sep.join(xs)\<close>.\<close>

fun join :: "string \<Rightarrow> string list \<Rightarrow> string" where
  "join sep [] = []"
| "join sep [x] = x"
| "join sep (x # y # ys) = x @ sep @ join sep (y # ys)"

text \<open>
  \<open>s.split()\<close>: the maximal runs of non-whitespace characters. The whitespace code points
  below 256 are 9 to 13, 28 to 32, 133 and 160.
\<close>

definition is_space :: "char \<Rightarrow> bool" where
  "is_space c =
     (let n = (of_char c :: nat)
      in (9 \<le> n \<and> n \<le> 13) \<or> (28 \<le> n \<and> n \<le> 32) \<or> n = 133 \<or> n = 160)"

fun split_from :: "string \<Rightarrow> string \<Rightarrow> string list" where
  "split_from cur [] = (if cur = [] then [] else [cur])"
| "split_from cur (c # cs) =
     (if is_space c then (if cur = [] then split_from [] cs else cur # split_from [] cs)
      else split_from (cur @ [c]) cs)"

definition split :: "string \<Rightarrow> string list" where
  "split s = split_from [] s"

text \<open>
  A Python dictionary keeps its keys unique and in insertion order: \<open>d[k] = v\<close> replaces
  the value of an existing key in place and appends a new key at the end.
\<close>

fun dict_set :: "'k \<Rightarrow> 'v \<Rightarrow> ('k \<times> 'v) list \<Rightarrow> ('k \<times> 'v) list" where
  "dict_set k v [] = [(k, v)]"
| "dict_set k v ((k', v') # kvs) =
     (if k' = k then (k, v) # kvs else (k', v') # dict_set k v kvs)"

text \<open>\<open>d.update(other)\<close> for another dictionary.\<close>

definition dict_update :: "('k \<times> 'v) list \<Rightarrow> ('k \<times> 'v) list \<Rightarrow> ('k \<times> 'v) list" where
  "dict_update d other = foldl (\<lambda>acc (k, v). dict_set k v acc) d other"

text \<open>
  The values stored under the top-level keys of the relation data: a mapping from names to
  descriptor strings (\<open>resources\<close>, \<open>resource_params\<close>, \<open>groups\<close>, \<open>clones\<close>,
  \<open>init_services\<close>, \<open>colocations\<close>, ...) or a list of names (\<open>delete_resources\<close>).
\<close>

datatype jval = JDict "(string \<times> string) list" | JList "string list"

type_synonym payload = "(string \<times> jval) list"

text \<open>Truthiness of a container: it is non-empty.\<close>

fun nonempty :: "jval \<Rightarrow> bool" where
  "nonempty (JDict d) = (d \<noteq> [])"
| "nonempty (JList xs) = (xs \<noteq> [])"

datatype exn =
    DNSHAException string
  | KeyError string
  | TypeError
  | AttributeError
  | ValueError
  | NotImplementedError

text \<open>
  \<open>relation_data[k1][k2] = v\<close>: a missing \<open>k1\<close> raises \<open>KeyError\<close>, and a list cannot be
  indexed by a string.
\<close>

definition setitem2 :: "string \<Rightarrow> string \<Rightarrow> string \<Rightarrow> payload \<Rightarrow> exn + payload" where
  "setitem2 k1 k2 v rd =
     (case map_of rd k1 of
        None \<Rightarrow> Inl (KeyError k1)
      | Some (JList xs) \<Rightarrow> Inl TypeError
      | Some (JDict d) \<Rightarrow> Inr (dict_set k1 (JDict (dict_set k2 v d)) rd))"

section \<open>Collaborators\<close>

text \<open>
  The functions imported from \<open>charmhelpers.core.hookenv\<close>, \<open>charmhelpers.core.host\<close>,
  \<open>charmhelpers.contrib.openstack.ip\<close>, \<open>charmhelpers.contrib.network.ip\<close> and
  \<open>charmhelpers.contrib.hahelpers.cluster\<close>, and \<open>hashlib.sha1\<close>, are parameters of the
  model. \<open>sha1_hexdigest vip\<close> stands for
  \<open>hashlib.sha1(vip.encode('UTF-8')).hexdigest()\<close>, \<open>lsb_release\<close> and
  \<open>get_hacluster_config\<close> for the dictionaries those calls return.
\<close>

record env =
  config :: "string \<Rightarrow> pyval"
  expected_related_units :: "string \<Rightarrow> exn + string list"
  lsb_release :: "string \<rightharpoonup> string"
  resolve_address :: "string \<Rightarrow> bool \<Rightarrow> string"
  is_ipv6 :: "string \<Rightarrow> bool"
  get_iface_for_address :: "string \<Rightarrow> string option"
  get_netmask_for_address :: "string \<Rightarrow> string option"
  get_hacluster_config :: "string \<rightharpoonup> string"
  sha1_hexdigest :: "string \<Rightarrow> string"

text \<open>
  What the hook leaves behind besides the relation data: the workload status set by
  \<open>status_set(state, message)\<close> and the messages passed to \<open>log(message, DEBUG)\<close>.
\<close>

record juju =
  workload_status :: "(string \<times> string) option"
  juju_log :: "string list"

definition status_set :: "string \<Rightarrow> string \<Rightarrow> juju \<Rightarrow> juju" where
  "status_set st msg w = w\<lparr>workload_status := Some (st, msg)\<rparr>"

definition log_debug :: "string \<Rightarrow> juju \<Rightarrow> juju" where
  "log_debug msg w = w\<lparr>juju_log := juju_log w @ [msg]\<rparr>"

section \<open>JSON encoding\<close>

text \<open>
  \<open>json.dumps(v, sort_keys=True, allow_nan=False, indent=None, separators=(',', ':'))\<close>
  on the values of the relation data. Strings are written with \<open>ensure_ascii\<close> (the
  default): the quote and the backslash are escaped, the control characters have their
  short escapes or \<open>\u00XX\<close>, and so has every other character outside the printable
  ASCII range.
\<close>

definition sort_keys :: bool where
  "sort_keys = True"

definition item_separator :: string where
  "item_separator = '',''"

definition key_separator :: string where
  "key_separator = '':''"

definition hex2 :: "nat \<Rightarrow> string" where
  "hex2 n = [''0123456789abcdef'' ! (n div 16 mod 16), ''0123456789abcdef'' ! (n mod 16)]"

definition json_escape_char :: "char \<Rightarrow> string" where
  "json_escape_char c =
     (let n = (of_char c :: nat)
      in if n = 34 then [CHR 0x5C, CHR 0x22]
         else if n = 92 then [CHR 0x5C, CHR 0x5C]
         else if n = 10 then [CHR 0x5C, CHR ''n'']
         else if n = 13 then [CHR 0x5C, CHR ''r'']
         else if n = 9 then [CHR 0x5C, CHR ''t'']
         else if n = 8 then [CHR 0x5C, CHR ''b'']
         else if n = 12 then [CHR 0x5C, CHR ''f'']
         else if 32 \<le> n \<and> n \<le> 126 then [c]
         else [CHR 0x5C, CHR ''u'', CHR ''0'', CHR ''0''] @ hex2 n)"

definition json_string :: "string \<Rightarrow> string" where
  "json_string s = [CHR 0x22] @ concat (map json_escape_char s) @ [CHR 0x22]"

definition json_item :: "string \<times> string \<Rightarrow> string" where
  "json_item kv = json_string (fst kv) @ key_separator @ json_string (snd kv)"

fun json_dumps :: "jval \<Rightarrow> string" where
  "json_dumps (JDict d) =
     ''{'' @ join item_separator (map json_item (if sort_keys then sort_key fst d else d)) @ ''}''"
| "json_dumps (JList xs) = ''['' @ join item_separator (map json_string xs) @ '']''"

section \<open>The module \<open>charmhelpers.contrib.openstack.ha.utils\<close>\<close>

definition VIP_GROUP_NAME :: "string \<Rightarrow> string" where
  "VIP_GROUP_NAME service = ''grp_'' @ service @ ''_vips''"

definition DNSHA_GROUP_NAME :: "string \<Rightarrow> string" where
  "DNSHA_GROUP_NAME service = ''grp_'' @ service @ ''_hostnames''"

subsection \<open>\<open>assert_charm_supports_dns_ha\<close>\<close>

text \<open>
  The release is compared with \<open>'16.04'\<close> as a string. \<open>dict.get\<close> gives \<open>None\<close> for a
  missing \<open>DISTRIB_RELEASE\<close>, and Python 3 refuses to order \<open>None\<close> and a string.
\<close>

definition dns_ha_unsupported_msg :: string where
  "dns_ha_unsupported_msg = ''DNS HA is only supported on 16.04 and greater versions of Ubuntu.''"

definition assert_charm_supports_dns_ha :: "env \<Rightarrow> juju \<Rightarrow> (exn + bool) \<times> juju" where
  "assert_charm_supports_dns_ha e w =
     (case lsb_release e ''DISTRIB_RELEASE'' of
        None \<Rightarrow> (Inl TypeError, w)
      | Some release \<Rightarrow>
          if release < ''16.04''
          then (Inl (DNSHAException dns_ha_unsupported_msg),
                status_set ''blocked'' dns_ha_unsupported_msg w)
          else (Inr True, w))"

subsection \<open>\<open>expect_ha\<close>\<close>

text \<open>
  Only \<open>NotImplementedError\<close> and \<open>KeyError\<close> are caught. \<open>a or b or c\<close> evaluates to
  its first truthy operand, or to the last one.
\<close>

definition expect_ha :: "env \<Rightarrow> exn + pyval" where
  "expect_ha e =
     (case (case expected_related_units e ''ha'' of
              Inr units \<Rightarrow> Inr units
            | Inl NotImplementedError \<Rightarrow> Inr []
            | Inl (KeyError k) \<Rightarrow> Inr []
            | Inl other \<Rightarrow> Inl other) of
        Inl err \<Rightarrow> Inl err
      | Inr ha_related_units \<Rightarrow>
          Inr (if length ha_related_units > 0 then PyBool True
               else if truthy (config e ''vip'') then config e ''vip''
               else config e ''dns-ha''))"

subsection \<open>\<open>update_hacluster_dns_ha\<close>\<close>

text \<open>
  \<open>re.search('os-(.+?)-hostname', setting)\<close>, giving group 1 of the first match: the
  search tries every start position from the left; there the literal \<open>os-\<close> must follow,
  then the group takes one character (any but a newline) and is extended one character
  at a time until the literal \<open>-hostname\<close> follows it.
\<close>

definition startswith :: "string \<Rightarrow> string \<Rightarrow> bool" where
  "startswith p s = (take (length p) s = p)"

fun lazy_group :: "string \<Rightarrow> string \<Rightarrow> string option" where
  "lazy_group g rest =
     (if startswith ''-hostname'' rest then Some g
      else case rest of
             [] \<Rightarrow> None
           | c # cs \<Rightarrow> if c = CHR 0x0A then None else lazy_group (g @ [c]) cs)"

definition match_at :: "string \<Rightarrow> string option" where
  "match_at s =
     (if startswith ''os-'' s
      then (case drop 3 s of
              [] \<Rightarrow> None
            | c # cs \<Rightarrow> if c = CHR 0x0A then None else lazy_group [c] cs)
      else None)"

fun re_search_hostname :: "string \<Rightarrow> string option" where
  "re_search_hostname s =
     (case match_at s of
        Some g \<Rightarrow> Some g
      | None \<Rightarrow> (case s of [] \<Rightarrow> None | c # cs \<Rightarrow> re_search_hostname cs))"

text \<open>
  The endpoint type of a setting: group 1 of the match, with \<open>internal\<close> replaced by
  \<open>int\<close>; \<open>None\<close> when the pattern does not match.
\<close>

definition endpoint_type_of :: "string \<Rightarrow> string option" where
  "endpoint_type_of setting =
     (case re_search_hostname setting of
        None \<Rightarrow> None
      | Some g \<Rightarrow> Some (if g = ''internal'' then ''int'' else g))"

definition dns_settings :: "string list" where
  "dns_settings = [''os-admin-hostname'', ''os-internal-hostname'',
                   ''os-public-hostname'', ''os-access-hostname'']"

definition hostname_key_of :: "string \<Rightarrow> string \<Rightarrow> string" where
  "hostname_key_of service endpoint_type = ''res_'' @ service @ ''_'' @ endpoint_type @ ''_hostname''"

definition dns_params :: "env \<Rightarrow> pyval \<Rightarrow> string \<Rightarrow> string" where
  \<open>dns_params e hostname endpoint_type =
     ''params fqdn="'' @ py_str hostname @ ''" ip_address="'' @
     resolve_address e endpoint_type False @ ''"''\<close>

text \<open>
  The loop over the settings. The state is the member list, the relation data (mutated in
  place by the source, so it is returned as it stands when an exception leaves the loop)
  and the hook state.
\<close>

fun dns_ha_loop ::
  "env \<Rightarrow> string \<Rightarrow> string \<Rightarrow> string list \<Rightarrow> string list \<Rightarrow> payload \<Rightarrow> juju
   \<Rightarrow> (exn + string list) \<times> payload \<times> juju" where
  "dns_ha_loop e service crm_ocf [] hostname_group rd w = (Inr hostname_group, rd, w)"
| "dns_ha_loop e service crm_ocf (setting # settings) hostname_group rd w =
     (if config e setting = PyNone
      then dns_ha_loop e service crm_ocf settings hostname_group rd
             (log_debug (''DNS HA: Hostname setting '' @ setting @ '' is None. Ignoring.'') w)
      else
        case endpoint_type_of setting of
          None \<Rightarrow>
            (Inl (DNSHAException (''Unexpected DNS hostname setting: '' @ setting @
                                  ''. Cannot determine endpoint_type name'')),
             rd,
             status_set ''blocked'' (''Unexpected DNS hostname setting: '' @ setting @
                                     ''. Cannot determine endpoint_type name'') w)
        | Some endpoint_type \<Rightarrow>
            (let hostname_key = hostname_key_of service endpoint_type
             in if hostname_key \<in> set hostname_group
                then dns_ha_loop e service crm_ocf settings hostname_group rd
                       (log_debug (''DNS HA: Resource '' @ hostname_key @ '': '' @
                                   py_str (config e setting) @
                                   '' already exists in hostname group - skipping'') w)
                else
                  case setitem2 ''resources'' hostname_key crm_ocf rd of
                    Inl err \<Rightarrow> (Inl err, rd, w)
                  | Inr rd1 \<Rightarrow>
                      (case setitem2 ''resource_params'' hostname_key
                              (dns_params e (config e setting) endpoint_type) rd1 of
                         Inl err \<Rightarrow> (Inl err, rd1, w)
                       | Inr rd2 \<Rightarrow>
                           dns_ha_loop e service crm_ocf settings
                             (hostname_group @ [hostname_key]) rd2 w)))"

definition dns_ha_no_members_msg :: string where
  "dns_ha_no_members_msg = ''DNS HA: Hostname group has no members.''"

definition update_hacluster_dns_ha ::
  "env \<Rightarrow> string \<Rightarrow> string \<Rightarrow> payload \<Rightarrow> juju \<Rightarrow> (exn + unit) \<times> payload \<times> juju" where
  "update_hacluster_dns_ha e service crm_ocf relation_data w =
     (case assert_charm_supports_dns_ha e w of
        (Inl err, w1) \<Rightarrow> (Inl err, relation_data, w1)
      | (Inr ok, w1) \<Rightarrow>
          (case dns_ha_loop e service crm_ocf dns_settings [] relation_data w1 of
             (Inl err, rd, w2) \<Rightarrow> (Inl err, rd, w2)
           | (Inr hostname_group, rd, w2) \<Rightarrow>
               if length hostname_group \<ge> 1
               then (Inr (),
                     dict_set ''groups''
                       (JDict [(DNSHA_GROUP_NAME service, join '' '' hostname_group)]) rd,
                     log_debug (''DNS HA: Hostname group is set with '' @
                                join '' '' hostname_group @
                                '' as members. Informing the ha relation'') w2)
               else (Inl (DNSHAException dns_ha_no_members_msg), rd,
                     status_set ''blocked'' dns_ha_no_members_msg w2)))"

subsection \<open>\<open>get_vip_settings\<close>\<close>

definition of_lookup :: "string option \<Rightarrow> pyval" where
  "of_lookup r = (case r of None \<Rightarrow> PyNone | Some s \<Rightarrow> PyStr s)"

definition get_vip_settings :: "env \<Rightarrow> string \<Rightarrow> pyval \<times> pyval \<times> bool" where
  "get_vip_settings e vip =
     (let iface = of_lookup (get_iface_for_address e vip);
          netmask = of_lookup (get_netmask_for_address e vip);
          fallback = False;
          (iface, fallback) =
             (if iface = PyNone then (config e ''vip_iface'', True) else (iface, fallback));
          (netmask, fallback) =
             (if netmask = PyNone then (config e ''vip_cidr'', True) else (netmask, fallback))
      in (iface, netmask, fallback))"

subsection \<open>\<open>update_hacluster_vip\<close>\<close>

definition res_vip_of :: "env \<Rightarrow> string \<Rightarrow> string" where
  "res_vip_of e vip = (if is_ipv6 e vip then ''ocf:heartbeat:IPv6addr'' else ''ocf:heartbeat:IPaddr2'')"

definition vip_params_of :: "env \<Rightarrow> string \<Rightarrow> string" where
  "vip_params_of e vip = (if is_ipv6 e vip then ''ipv6addr'' else ''ip'')"

definition vip_monitoring :: string where
  \<open>vip_monitoring = ''op monitor depth="0" timeout="20s" interval="10s"''\<close>

text \<open>The old-style name \<open>'res_{}_{}_vip'.format(service, iface)\<close>.\<close>

definition old_vip_key :: "string \<Rightarrow> pyval \<Rightarrow> string" where
  "old_vip_key service iface = ''res_'' @ service @ ''_'' @ py_str iface @ ''_vip''"

text \<open>
  The name \<open>'res_{}_{}_vip'.format(service, hashlib.sha1(vip.encode('UTF-8')).hexdigest()[:7])\<close>.
\<close>

definition new_vip_key :: "env \<Rightarrow> string \<Rightarrow> string \<Rightarrow> string" where
  "new_vip_key e service vip = ''res_'' @ service @ ''_'' @ take 7 (sha1_hexdigest e vip) @ ''_vip''"

definition fallback_params :: "string \<Rightarrow> string \<Rightarrow> pyval \<Rightarrow> pyval \<Rightarrow> string" where
  \<open>fallback_params ip vip iface netmask =
     ''params '' @ ip @ ''="'' @ vip @ ''" cidr_netmask="'' @ py_str netmask @
     ''" nic="'' @ py_str iface @ ''" '' @ vip_monitoring\<close>

definition detected_params :: "string \<Rightarrow> string \<Rightarrow> string" where
  \<open>detected_params ip vip = ''params '' @ ip @ ''="'' @ vip @ ''" '' @ vip_monitoring\<close>

fun vip_loop ::
  "env \<Rightarrow> string \<Rightarrow> string list \<Rightarrow> string list \<Rightarrow> string list \<Rightarrow> payload
   \<Rightarrow> (exn + string list \<times> string list) \<times> payload" where
  "vip_loop e service [] vip_group vips_to_delete rd = (Inr (vip_group, vips_to_delete), rd)"
| "vip_loop e service (vip # vips) vip_group vips_to_delete rd =
     (case get_vip_settings e vip of
        (iface, netmask, fallback) \<Rightarrow>
          if iface \<noteq> PyNone
          then
            (let vip_key = old_vip_key service iface;
                 vip_key = (if vip_key \<in> set vips_to_delete
                            then vip_key @ ''_'' @ vip_params_of e vip else vip_key);
                 vips_to_delete = vips_to_delete @ [vip_key];
                 vip_key = new_vip_key e service vip
             in case setitem2 ''resources'' vip_key (res_vip_of e vip) rd of
                  Inl err \<Rightarrow> (Inl err, rd)
                | Inr rd1 \<Rightarrow>
                    (case setitem2 ''resource_params'' vip_key
                            (if fallback
                             then fallback_params (vip_params_of e vip) vip iface netmask
                             else detected_params (vip_params_of e vip) vip) rd1 of
                       Inl err \<Rightarrow> (Inl err, rd1)
                     | Inr rd2 \<Rightarrow>
                         vip_loop e service vips (vip_group @ [vip_key]) vips_to_delete rd2))
          else vip_loop e service vips vip_group vips_to_delete rd)"

text \<open>
  \<open>relation_data['delete_resources'].extend(vips_to_delete)\<close>, with the \<open>KeyError\<close> of a
  missing key caught; a dictionary has no \<open>extend\<close>.
\<close>

definition extend_delete_resources :: "string list \<Rightarrow> payload \<Rightarrow> exn + payload" where
  "extend_delete_resources vips_to_delete rd =
     (case map_of rd ''delete_resources'' of
        None \<Rightarrow> Inr (dict_set ''delete_resources'' (JList vips_to_delete) rd)
      | Some (JList xs) \<Rightarrow> Inr (dict_set ''delete_resources'' (JList (xs @ vips_to_delete)) rd)
      | Some (JDict d) \<Rightarrow> Inl AttributeError)"

text \<open>
  \<open>relation_data['groups'][key] = ' '.join(vip_group)\<close>, with the \<open>KeyError\<close> of a missing
  \<open>groups\<close> caught.
\<close>

definition set_vip_group :: "string \<Rightarrow> string list \<Rightarrow> payload \<Rightarrow> exn + payload" where
  "set_vip_group key vip_group rd =
     (case setitem2 ''groups'' key (join '' '' vip_group) rd of
        Inl (KeyError k) \<Rightarrow> Inr (dict_set ''groups'' (JDict [(key, join '' '' vip_group)]) rd)
      | Inl err \<Rightarrow> Inl err
      | Inr rd' \<Rightarrow> Inr rd')"

definition update_hacluster_vip :: "env \<Rightarrow> string \<Rightarrow> payload \<Rightarrow> (exn + unit) \<times> payload" where
  "update_hacluster_vip e service relation_data =
     (case get_hacluster_config e ''vip'' of
        None \<Rightarrow> (Inl (KeyError ''vip''), relation_data)
      | Some vip_cfg \<Rightarrow>
          (case vip_loop e service (split vip_cfg) [] [] relation_data of
             (Inl err, rd) \<Rightarrow> (Inl err, rd)
           | (Inr (vip_group, vips_to_delete), rd) \<Rightarrow>
               (case (if vips_to_delete \<noteq> [] then extend_delete_resources vips_to_delete rd
                      else Inr rd) of
                  Inl err \<Rightarrow> (Inl err, rd)
                | Inr rd1 \<Rightarrow>
                    if length vip_group \<ge> 1
                    then (case set_vip_group (VIP_GROUP_NAME service) vip_group rd1 of
                            Inl err \<Rightarrow> (Inl err, rd1)
                          | Inr rd2 \<Rightarrow> (Inr (), rd2))
                    else (Inr (), rd1))))"

subsection \<open>\<open>generate_ha_relation_data\<close>\<close>

definition haproxy_res :: "string \<Rightarrow> string" where
  "haproxy_res service = ''res_'' @ service @ ''_haproxy''"

definition haproxy_data :: "string \<Rightarrow> payload \<Rightarrow> payload" where
  \<open>haproxy_data service rd =
     dict_set ''clones'' (JDict [(''cl_'' @ service @ ''_haproxy'', haproxy_res service)])
       (dict_set ''init_services'' (JDict [(haproxy_res service, ''haproxy'')])
          (dict_set ''resource_params'' (JDict [(haproxy_res service, ''op monitor interval="5s"'')])
             (dict_set ''resources'' (JDict [(haproxy_res service, ''lsb:haproxy'')]) rd)))\<close>

text \<open>
  \<open>d.update(v)\<close> on a dictionary \<open>d\<close>: another dictionary is merged key by key; a list is
  read as a sequence of pairs, and a string is a pair when it has two characters.
\<close>

fun pairs_of :: "string list \<Rightarrow> exn + (string \<times> string) list" where
  "pairs_of [] = Inr []"
| "pairs_of (x # xs) =
     (if length x = 2
      then (case pairs_of xs of Inl err \<Rightarrow> Inl err | Inr ps \<Rightarrow> Inr (([x ! 0], [x ! 1]) # ps))
      else Inl ValueError)"

definition update_value :: "jval \<Rightarrow> jval \<Rightarrow> exn + jval" where
  "update_value cur v =
     (case cur of
        JList xs \<Rightarrow> Inl AttributeError
      | JDict d \<Rightarrow>
          (case v of
             JDict d' \<Rightarrow> Inr (JDict (dict_update d d'))
           | JList ys \<Rightarrow>
               (case pairs_of ys of Inl err \<Rightarrow> Inl err | Inr ps \<Rightarrow> Inr (JDict (dict_update d ps)))))"

text \<open>The loop \<open>for k, v in extra_settings.items()\<close>.\<close>

fun merge_extra :: "payload \<Rightarrow> payload \<Rightarrow> exn + payload" where
  "merge_extra [] rd = Inr rd"
| "merge_extra ((k, v) # kvs) rd =
     (case map_of rd k of
        Some cur \<Rightarrow>
          if nonempty cur
          then (case update_value cur v of
                  Inl err \<Rightarrow> Inl err
                | Inr cur' \<Rightarrow> merge_extra kvs (dict_set k cur' rd))
          else merge_extra kvs (dict_set k v rd)
      | None \<Rightarrow> merge_extra kvs (dict_set k v rd))"

text \<open>
  The body of \<open>generate_ha_relation_data\<close> up to its \<open>return\<close> statement: the relation
  data \<open>_relation_data\<close> as the builders leave it.
\<close>

definition build_relation_data ::
  "env \<Rightarrow> string \<Rightarrow> bool \<Rightarrow> payload option \<Rightarrow> juju \<Rightarrow> (exn + payload) \<times> juju" where
  "build_relation_data e service haproxy_enabled extra_settings w =
     (let rd0 = [(''resources'', JDict []), (''resource_params'', JDict [])];
          rd1 = (if haproxy_enabled then haproxy_data service rd0 else rd0)
      in case (case extra_settings of
                 None \<Rightarrow> Inr rd1
               | Some extra \<Rightarrow> if extra \<noteq> [] then merge_extra extra rd1 else Inr rd1) of
           Inl err \<Rightarrow> (Inl err, w)
         | Inr rd2 \<Rightarrow>
             if truthy (config e ''dns-ha'')
             then (case update_hacluster_dns_ha e service ''ocf:maas:dns'' rd2 w of
                     (Inl err, rd3, w') \<Rightarrow> (Inl err, w')
                   | (Inr u, rd3, w') \<Rightarrow> (Inr rd3, w'))
             else (case update_hacluster_vip e service rd2 of
                     (Inl err, rd3) \<Rightarrow> (Inl err, w)
                   | (Inr u, rd3) \<Rightarrow> (Inr rd3, w)))"

text \<open>
  The dictionary comprehension of the \<open>return\<close> statement:
  \<open>{'json_{}'.format(k): json.dumps(v, **JSON_ENCODE_OPTIONS) for k, v in
  _relation_data.items() if v}\<close>.
\<close>

definition json_encode :: "payload \<Rightarrow> (string \<times> string) list" where
  "json_encode rd = map (\<lambda>(k, v). (''json_'' @ k, json_dumps v)) (filter (\<lambda>(k, v). nonempty v) rd)"

definition generate_ha_relation_data ::
  "env \<Rightarrow> string \<Rightarrow> bool \<Rightarrow> payload option \<Rightarrow> juju \<Rightarrow> (exn + (string \<times> string) list) \<times> juju" where
  "generate_ha_relation_data e service haproxy_enabled extra_settings w =
     (case build_relation_data e service haproxy_enabled extra_settings w of
        (Inl err, w') \<Rightarrow> (Inl err, w')
      | (Inr rd, w') \<Rightarrow> (Inr (json_encode rd), w'))"

section \<open>Notions used in the statements\<close>

text \<open>The dictionary, or the list, stored under a top-level key (empty when there is none).\<close>

definition dict_at :: "payload \<Rightarrow> string \<Rightarrow> (string \<times> string) list" where
  "dict_at rd k = (case map_of rd k of Some (JDict d) \<Rightarrow> d | _ \<Rightarrow> [])"

definition list_at :: "payload \<Rightarrow> string \<Rightarrow> string list" where
  "list_at rd k = (case map_of rd k of Some (JList xs) \<Rightarrow> xs | _ \<Rightarrow> [])"

text \<open>
  The string under a key of the mapping that \<open>generate_ha_relation_data\<close> returns (none when
  it raises), and the keys of that mapping.
\<close>

definition encoded :: "(exn + (string \<times> string) list) \<times> juju \<Rightarrow> string \<Rightarrow> string option" where
  "encoded res k = (case fst res of Inl err \<Rightarrow> None | Inr kvs \<Rightarrow> map_of kvs k)"

definition encoded_keys :: "(exn + (string \<times> string) list) \<times> juju \<Rightarrow> string list" where
  "encoded_keys res = (case fst res of Inl err \<Rightarrow> [] | Inr kvs \<Rightarrow> map fst kvs)"

fun is_dict :: "jval option \<Rightarrow> bool" where
  "is_dict (Some (JDict d)) = True"
| "is_dict _ = False"

text \<open>
  Relation data that the VIP builder can work on: \<open>resources\<close> and \<open>resource_params\<close> are
  dictionaries (the assembler creates both), \<open>delete_resources\<close> is absent or a list, and
  \<open>groups\<close> is absent or a dictionary.
\<close>

definition vip_ready :: "payload \<Rightarrow> bool" where
  "vip_ready rd =
     (is_dict (map_of rd ''resources'') \<and> is_dict (map_of rd ''resource_params'') \<and>
      (case map_of rd ''delete_resources'' of Some (JDict d) \<Rightarrow> False | _ \<Rightarrow> True) \<and>
      (case map_of rd ''groups'' of Some (JList xs) \<Rightarrow> False | _ \<Rightarrow> True))"

text \<open>A VIP whose interface was identified, by discovery or by the \<open>vip_iface\<close> option.\<close>

definition has_iface :: "env \<Rightarrow> string \<Rightarrow> bool" where
  "has_iface e vip = (fst (get_vip_settings e vip) \<noteq> PyNone)"

text \<open>The interface name as it is written into the old-style name.\<close>

definition iface_name :: "env \<Rightarrow> string \<Rightarrow> string" where
  "iface_name e vip = py_str (fst (get_vip_settings e vip))"

text \<open>The parameter string that the loop body stores for a VIP.\<close>

definition vip_params_string :: "env \<Rightarrow> string \<Rightarrow> string" where
  "vip_params_string e vip =
     (case get_vip_settings e vip of
        (iface, netmask, fallback) \<Rightarrow>
          if fallback then fallback_params (vip_params_of e vip) vip iface netmask
          else detected_params (vip_params_of e vip) vip)"

text \<open>The list \<open>vips_to_delete\<close> after the loop has gone through VIPs with an interface.\<close>

fun old_keys :: "env \<Rightarrow> string \<Rightarrow> string list \<Rightarrow> string list \<Rightarrow> string list" where
  "old_keys e service d [] = d"
| "old_keys e service d (vip # vips) =
     old_keys e service
       (d @ [if old_vip_key service (fst (get_vip_settings e vip)) \<in> set d
             then old_vip_key service (fst (get_vip_settings e vip)) @ ''_'' @ vip_params_of e vip
             else old_vip_key service (fst (get_vip_settings e vip))]) vips"

text \<open>The relation data as \<open>update_hacluster_vip\<close> leaves it, for the VIPs it records.\<close>

definition vip_result :: "env \<Rightarrow> string \<Rightarrow> string list \<Rightarrow> payload \<Rightarrow> payload" where
  "vip_result e service vs rd =
     (let rd1 = dict_set ''resource_params''
                  (JDict (dict_update (dict_at rd ''resource_params'')
                            (map (\<lambda>vip. (new_vip_key e service vip, vip_params_string e vip)) vs)))
                  (dict_set ''resources''
                     (JDict (dict_update (dict_at rd ''resources'')
                               (map (\<lambda>vip. (new_vip_key e service vip, res_vip_of e vip)) vs)))
                     rd)
      in if vs = [] then rd1
         else dict_set ''groups''
                (JDict (dict_set (VIP_GROUP_NAME service)
                          (join '' '' (map (new_vip_key e service) vs)) (dict_at rd ''groups'')))
                (dict_set ''delete_resources''
                   (JList (list_at rd ''delete_resources'' @ old_keys e service [] vs)) rd1))"

text \<open>The strings that occur in a value of the relation data.\<close>

fun strings_of :: "jval \<Rightarrow> string list" where
  "strings_of (JDict d) = map fst d @ map snd d"
| "strings_of (JList xs) = xs"

text \<open>
  Extra settings that bring no non-empty \<open>resources\<close> or \<open>resource_params\<close>; as the
  items of a dictionary, their keys are distinct.
\<close>

definition no_extra_resources :: "payload option \<Rightarrow> bool" where
  "no_extra_resources extra_settings =
     (case extra_settings of
        None \<Rightarrow> True
      | Some extra \<Rightarrow>
          distinct (map fst extra) \<and>
          list_all (\<lambda>kv. fst kv \<in> {''resources'', ''resource_params''} \<longrightarrow> \<not> nonempty (snd kv))
            extra)"

text \<open>
  Relation data that the DNS-HA builder can work on: \<open>resources\<close> and \<open>resource_params\<close>
  are dictionaries.
\<close>

definition dns_ready :: "payload \<Rightarrow> bool" where
  "dns_ready rd = (is_dict (map_of rd ''resources'') \<and> is_dict (map_of rd ''resource_params''))"

text \<open>
  A setting name without its first three characters (\<open>os-\<close>) and its last nine
  (\<open>-hostname\<close>), and the endpoint type this gives.
\<close>

definition strip_setting :: "string \<Rightarrow> string" where
  "strip_setting s = drop 3 (take (length s - 9) s)"

definition dns_endpoint :: "string \<Rightarrow> string" where
  "dns_endpoint s = (if strip_setting s = ''internal'' then ''int'' else strip_setting s)"

text \<open>The hostname settings that are set, in the order of the loop.\<close>

definition usable_settings :: "env \<Rightarrow> string list" where
  "usable_settings e = filter (\<lambda>s. config e s \<noteq> PyNone) dns_settings"

text \<open>The relation data and the hook state when the loop over the settings has ended.\<close>

definition dns_data :: "env \<Rightarrow> string \<Rightarrow> string \<Rightarrow> string list \<Rightarrow> payload \<Rightarrow> payload" where
  "dns_data e service crm_ocf settings rd =
     dict_set ''resource_params''
       (JDict (dict_update (dict_at rd ''resource_params'')
                 (map (\<lambda>s. (hostname_key_of service (dns_endpoint s),
                            dns_params e (config e s) (dns_endpoint s))) settings)))
       (dict_set ''resources''
          (JDict (dict_update (dict_at rd ''resources'')
                    (map (\<lambda>s. (hostname_key_of service (dns_endpoint s), crm_ocf)) settings)))
          rd)"

definition dns_skipped :: "env \<Rightarrow> string list \<Rightarrow> juju \<Rightarrow> juju" where
  "dns_skipped e settings w =
     w\<lparr>juju_log := juju_log w @
          map (\<lambda>s. ''DNS HA: Hostname setting '' @ s @ '' is None. Ignoring.'')
            (filter (\<lambda>s. config e s = PyNone) settings)\<rparr>"

section \<open>A deployment used in the examples\<close>

text \<open>
  SHA-1 digests of the VIP literals of the examples, as \<open>hashlib\<close> prints them.
\<close>

definition sha1_known :: "string \<Rightarrow> string" where
  "sha1_known s =
     (if s = ''10.0.0.5'' then ''00d735369988d4bbd0d404a166a6f8b871027763''
      else if s = ''10.0.0.6'' then ''d85d4f646222c4e6ccc4548b30017e75cfaed8c6''
      else if s = ''10.0.0.7'' then ''dcbab0fa384119ebe5a81c966bc7f1ab1b15a2e6''
      else if s = ''2001:db8::5'' then ''532777ee6b59274cf871c1d6e0ed775633879f7d''
      else [])"

text \<open>
  A unit on Ubuntu 16.04 whose charm options are all unset, where every address is found on
  \<open>eth0\<close> with netmask \<open>255.255.255.0\<close>; \<open>vips\<close> is the \<open>vip\<close> string of the cluster
  configuration.
\<close>

definition nova_env :: "string \<Rightarrow> env" where
  "nova_env vips =
     \<lparr> config = (\<lambda>k. PyNone),
       expected_related_units = (\<lambda>r. Inl NotImplementedError),
       lsb_release = [''DISTRIB_RELEASE'' \<mapsto> ''16.04''],
       resolve_address = (\<lambda>t b. ''10.0.0.1''),
       is_ipv6 = (\<lambda>a. CHR '':'' \<in> set a),
       get_iface_for_address = (\<lambda>a. Some ''eth0''),
       get_netmask_for_address = (\<lambda>a. Some ''255.255.255.0''),
       get_hacluster_config = [''vip'' \<mapsto> vips],
       sha1_hexdigest = sha1_known \<rparr>"

text \<open>
  The same unit where no address is found on any interface, with the options \<open>vip_iface\<close>
  and \<open>vip_cidr\<close> as given.
\<close>

definition undiscovered_env :: "string \<Rightarrow> pyval \<Rightarrow> pyval \<Rightarrow> env" where
  "undiscovered_env vips iface cidr =
     (nova_env vips)
       \<lparr> config := (\<lambda>k. if k = ''vip_iface'' then iface
                         else if k = ''vip_cidr'' then cidr else PyNone),
         get_iface_for_address := (\<lambda>a. None),
         get_netmask_for_address := (\<lambda>a. None) \<rparr>"

text \<open>
  The same unit on another release and with the charm options of an association list.
\<close>

definition option_env :: "string \<Rightarrow> (string \<times> pyval) list \<Rightarrow> env" where
  "option_env release opts =
     (nova_env [])
       \<lparr> config := (\<lambda>k. case map_of opts k of None \<Rightarrow> PyNone | Some v \<Rightarrow> v),
         lsb_release := [''DISTRIB_RELEASE'' \<mapsto> release] \<rparr>"

text \<open>
  The same unit where the goal state lists the given units for the relation type \<open>ha\<close>
  and knows no other relation type.
\<close>

definition related_env :: "string list \<Rightarrow> (string \<times> pyval) list \<Rightarrow> env" where
  "related_env units opts =
     (option_env ''16.04'' opts)
       \<lparr> expected_related_units := (\<lambda>r. if r = ''ha'' then Inr units else Inl (KeyError r)) \<rparr>"

text \<open>The extra settings of the example in the docstring of \<open>generate_ha_relation_data\<close>.\<close>

definition ha_console_settings :: payload where
  \<open>ha_console_settings =
     [(''colocations'', JDict [(''vip_consoleauth'', ''inf: res_nova_consoleauth grp_nova_vips'')]),
      (''init_services'', JDict [(''res_nova_consoleauth'', ''nova-consoleauth'')]),
      (''resources'', JDict [(''res_nova_consoleauth'', ''ocf:openstack:nova-consoleauth'')]),
      (''resource_params'', JDict [(''res_nova_consoleauth'', ''op monitor interval="5s"'')])]\<close>

definition no_juju :: juju where
  "no_juju = \<lparr> workload_status = None, juju_log = [] \<rparr>"

definition fresh_data :: payload where
  "fresh_data = [(''resources'', JDict []), (''resource_params'', JDict [])]"

section \<open>Dictionaries\<close>

lemma map_of_dict_set: "map_of (dict_set k v xs) = (map_of xs)(k \<mapsto> v)"
  by (induction xs) (auto simp: fun_eq_iff)

lemma keys_dict_set: "fst ` set (dict_set k v xs) = insert k (fst ` set xs)"
  using dom_map_of_conv_image_fst[of "dict_set k v xs"]
  by (simp add: map_of_dict_set dom_map_of_conv_image_fst)

lemma map_fst_dict_set:
  "map fst (dict_set k v xs) = (if k \<in> fst ` set xs then map fst xs else map fst xs @ [k])"
  by (induction xs) force+

lemma distinct_dict_set: "distinct (map fst xs) \<Longrightarrow> distinct (map fst (dict_set k v xs))"
  by (simp add: map_fst_dict_set)

lemma dict_set_twice: "dict_set k v (dict_set k w xs) = dict_set k v xs"
  by (induction xs) auto

lemma dict_set_commute:
  "k \<noteq> k' \<Longrightarrow> k \<in> fst ` set xs \<Longrightarrow>
   dict_set k v (dict_set k' w xs) = dict_set k' w (dict_set k v xs)"
  by (induction xs) force+

lemma dict_set_same: "map_of xs k = Some v \<Longrightarrow> dict_set k v xs = xs"
  by (induction xs) (auto split: if_splits)

lemma setitem2_dict:
  "map_of rd k1 = Some (JDict d) \<Longrightarrow>
   setitem2 k1 k2 v rd = Inr (dict_set k1 (JDict (dict_set k2 v d)) rd)"
  by (simp add: setitem2_def)

section \<open>The loop of the VIP builder\<close>

lemma vip_loop_skip:
  "\<not> has_iface e vip \<Longrightarrow>
   vip_loop e service (vip # vips) g d rd = vip_loop e service vips g d rd"
  by (cases "get_vip_settings e vip") (simp add: has_iface_def)

lemma vip_loop_record:
  assumes "has_iface e vip"
    and "map_of rd ''resources'' = Some (JDict r)"
    and "map_of rd ''resource_params'' = Some (JDict p)"
  shows "vip_loop e service (vip # vips) g d rd =
         vip_loop e service vips (g @ [new_vip_key e service vip])
           (old_keys e service d [vip])
           (dict_set ''resource_params''
              (JDict (dict_set (new_vip_key e service vip) (vip_params_string e vip) p))
              (dict_set ''resources''
                 (JDict (dict_set (new_vip_key e service vip) (res_vip_of e vip) r)) rd))"
  using assms
  by (cases "get_vip_settings e vip")
     (simp add: has_iface_def vip_params_string_def setitem2_dict map_of_dict_set Let_def)

lemma old_keys_append:
  "old_keys e service d (vs @ ws) = old_keys e service (old_keys e service d vs) ws"
  by (induction vs arbitrary: d) simp_all

lemma vip_loop_ok:
  assumes "map_of rd ''resources'' = Some (JDict r)"
    and "map_of rd ''resource_params'' = Some (JDict p)"
  shows "vip_loop e service vips g d rd =
         (Inr (g @ map (new_vip_key e service) (filter (has_iface e) vips),
               old_keys e service d (filter (has_iface e) vips)),
          dict_set ''resource_params''
            (JDict (dict_update p (map (\<lambda>vip. (new_vip_key e service vip, vip_params_string e vip))
                                     (filter (has_iface e) vips))))
            (dict_set ''resources''
               (JDict (dict_update r (map (\<lambda>vip. (new_vip_key e service vip, res_vip_of e vip))
                                        (filter (has_iface e) vips)))) rd))"
  using assms
proof (induction vips arbitrary: g d rd r p)
  case Nil
  then show ?case by (simp add: dict_update_def dict_set_same map_of_dict_set)
next
  case (Cons vip vips)
  show ?case
  proof (cases "has_iface e vip")
    case False
    then show ?thesis
      using Cons.IH[OF Cons.prems] by (simp add: vip_loop_skip del: vip_loop.simps)
  next
    case True
    let ?k = "new_vip_key e service vip"
    let ?r2 = "dict_set ?k (res_vip_of e vip) r"
    let ?p2 = "dict_set ?k (vip_params_string e vip) p"
    let ?rd2 = "dict_set ''resource_params'' (JDict ?p2) (dict_set ''resources'' (JDict ?r2) rd)"
    have r2: "map_of ?rd2 ''resources'' = Some (JDict ?r2)"
      and p2: "map_of ?rd2 ''resource_params'' = Some (JDict ?p2)"
      by (simp_all add: map_of_dict_set)
    have mem: "''resources'' \<in> fst ` set (dict_set ''resources'' (JDict ?r2) rd)"
      by (simp add: keys_dict_set)
    have comm: "dict_set ''resources'' a
                  (dict_set ''resource_params'' b (dict_set ''resources'' (JDict ?r2) rd))
                = dict_set ''resource_params'' b (dict_set ''resources'' a rd)" for a b
      using dict_set_commute[of "''resources''" "''resource_params''"
                                "dict_set ''resources'' (JDict ?r2) rd"] mem
      by (simp add: dict_set_twice)
    show ?thesis
      using True Cons.IH[OF r2 p2]
      by (simp add: vip_loop_record[OF True Cons.prems] comm dict_set_twice dict_update_def
               del: vip_loop.simps)
  qed
qed

lemma old_keys_length: "length (old_keys e service d vs) = length d + length vs"
  by (induction vs arbitrary: d) simp_all

lemma old_keys_Nil_iff: "old_keys e service [] vs = [] \<longleftrightarrow> vs = []"
  using old_keys_length[of e service "[]" vs] by (metis add_0 length_0_conv)

lemma is_dict_iff: "is_dict x \<longleftrightarrow> (\<exists>d. x = Some (JDict d))"
  by (cases x rule: is_dict.cases) simp_all

lemma update_hacluster_vip_ok:
  assumes cfg: "get_hacluster_config e ''vip'' = Some cfg"
    and ready: "vip_ready rd"
  shows "update_hacluster_vip e service rd =
         (Inr (), vip_result e service (filter (has_iface e) (split cfg)) rd)"
proof -
  let ?vs = "filter (has_iface e) (split cfg)"
  from ready obtain r p where r: "map_of rd ''resources'' = Some (JDict r)"
    and p: "map_of rd ''resource_params'' = Some (JDict p)"
    by (auto simp: vip_ready_def is_dict_iff)
  from ready have del: "\<And>d. map_of rd ''delete_resources'' \<noteq> Some (JDict d)"
    and grp: "\<And>xs. map_of rd ''groups'' \<noteq> Some (JList xs)"
    by (auto simp: vip_ready_def split: option.splits jval.splits)
  let ?rd1 = "dict_set ''resource_params''
            (JDict (dict_update p (map (\<lambda>vip. (new_vip_key e service vip, vip_params_string e vip)) ?vs)))
            (dict_set ''resources''
               (JDict (dict_update r (map (\<lambda>vip. (new_vip_key e service vip, res_vip_of e vip)) ?vs))) rd)"
  have loop: "vip_loop e service (split cfg) [] [] rd =
        (Inr (map (new_vip_key e service) ?vs, old_keys e service [] ?vs), ?rd1)"
    using vip_loop_ok[OF r p, of e service "split cfg" "[]" "[]"] by simp
  have d1: "map_of ?rd1 ''delete_resources'' = map_of rd ''delete_resources''"
    by (simp add: map_of_dict_set)
  show ?thesis
  proof (cases "?vs = []")
    case True
    then show ?thesis
      using cfg loop r p
      by (simp add: update_hacluster_vip_def vip_result_def dict_at_def)
  next
    case False
    let ?L = "old_keys e service [] ?vs"
    let ?rd2 = "dict_set ''delete_resources'' (JList (list_at rd ''delete_resources'' @ ?L)) ?rd1"
    have L: "?L \<noteq> []" using False by (simp add: old_keys_Nil_iff)
    have ext: "extend_delete_resources ?L ?rd1 = Inr ?rd2"
      using del d1
      by (cases "map_of rd ''delete_resources''")
         (auto simp: extend_delete_resources_def list_at_def split: jval.splits)
    have g2: "map_of ?rd2 ''groups'' = map_of rd ''groups''"
      by (simp add: map_of_dict_set)
    let ?names = "map (new_vip_key e service) ?vs"
    have setg: "set_vip_group (VIP_GROUP_NAME service) ?names ?rd2 =
          Inr (dict_set ''groups''
                 (JDict (dict_set (VIP_GROUP_NAME service) (join '' '' ?names) (dict_at rd ''groups'')))
                 ?rd2)"
      using grp g2
      by (cases "map_of rd ''groups''")
         (auto simp: set_vip_group_def setitem2_def dict_at_def split: jval.splits)
    have len: "1 \<le> length ?names"
      using False by (cases ?vs) simp_all
    have res: "vip_result e service ?vs rd =
          dict_set ''groups''
            (JDict (dict_set (VIP_GROUP_NAME service) (join '' '' ?names) (dict_at rd ''groups'')))
            ?rd2"
      using False r p by (simp add: vip_result_def dict_at_def)
    show ?thesis
      unfolding update_hacluster_vip_def res
      using L len by (simp add: cfg loop ext setg del: One_nat_def)
  qed
qed

lemma map_of_dict_update: "map_of (dict_update d kvs) = map_of d ++ map_of (rev kvs)"
  unfolding dict_update_def
proof (induction kvs arbitrary: d)
  case Nil
  show ?case by simp
next
  case (Cons kv kvs)
  obtain k v where kv: "kv = (k, v)" by (cases kv)
  show ?case
    by (auto simp: kv Cons.IH map_of_dict_set fun_eq_iff map_add_def split: option.splits)
qed

lemma keys_dict_update:
  "fst ` set (dict_update d kvs) = fst ` set d \<union> fst ` set kvs"
  using arg_cong[OF map_of_dict_update[of d kvs], of dom]
  by (simp add: dom_map_of_conv_image_fst Un_commute)

lemma map_of_unique:
  assumes "(k, v) \<in> set xs" and "\<forall>v'. (k, v') \<in> set xs \<longrightarrow> v' = v"
  shows "map_of xs k = Some v"
proof -
  from assms(1) have "k \<in> fst ` set xs" by force
  then obtain v' where v': "map_of xs k = Some v'"
    by (cases "map_of xs k") (simp_all add: map_of_eq_None_iff)
  then have "(k, v') \<in> set xs" by (rule map_of_SomeD)
  with assms(2) v' show ?thesis by simp
qed

lemma vip_result_resources:
  "vip_ready rd \<Longrightarrow>
   dict_at (vip_result e service vs rd) ''resources'' =
   dict_update (dict_at rd ''resources'')
     (map (\<lambda>vip. (new_vip_key e service vip, res_vip_of e vip)) vs)"
  by (simp add: vip_result_def dict_at_def map_of_dict_set Let_def)

lemma vip_result_resource_params:
  "vip_ready rd \<Longrightarrow>
   dict_at (vip_result e service vs rd) ''resource_params'' =
   dict_update (dict_at rd ''resource_params'')
     (map (\<lambda>vip. (new_vip_key e service vip, vip_params_string e vip)) vs)"
  by (simp add: vip_result_def dict_at_def map_of_dict_set Let_def)

lemma vip_result_delete_resources:
  "map_of (vip_result e service vs rd) ''delete_resources'' =
   (if vs = [] then map_of rd ''delete_resources''
    else Some (JList (list_at rd ''delete_resources'' @ old_keys e service [] vs)))"
  by (simp add: vip_result_def map_of_dict_set Let_def)

lemma vip_result_groups:
  "map_of (vip_result e service vs rd) ''groups'' =
   (if vs = [] then map_of rd ''groups''
    else Some (JDict (dict_set (VIP_GROUP_NAME service)
                        (join '' '' (map (new_vip_key e service) vs)) (dict_at rd ''groups''))))"
  by (simp add: vip_result_def map_of_dict_set Let_def)

section \<open>Claims about the VIP builder\<close>

text \<open>
  C1, as amended. On relation data the builder can work on, \<open>update_hacluster_vip\<close> returns
  normally, and the names it adds to \<open>resources\<close> are exactly the names
  \<open>res_<service>_<first 7 hex characters of the SHA-1 digest of the VIP>_vip\<close> of the VIPs of
  the configured list whose interface was identified. The name is a function of the service
  and the VIP alone, so two calls with the same service and VIP give the same name.
\<close>
theorem vip_resource_names:
  assumes "get_hacluster_config e ''vip'' = Some cfg" and "vip_ready rd"
  shows "\<exists>rd'. update_hacluster_vip e service rd = (Inr (), rd') \<and>
           fst ` set (dict_at rd' ''resources'') =
             fst ` set (dict_at rd ''resources'') \<union>
             (\<lambda>vip. ''res_'' @ service @ ''_'' @ take 7 (sha1_hexdigest e vip) @ ''_vip'') `
               set (filter (has_iface e) (split cfg))"
proof -
  let ?vs = "filter (has_iface e) (split cfg)"
  have eq: "update_hacluster_vip e service rd = (Inr (), vip_result e service ?vs rd)"
    by (rule update_hacluster_vip_ok[OF assms])
  have "fst ` set (dict_at (vip_result e service ?vs rd) ''resources'') =
        fst ` set (dict_at rd ''resources'') \<union> new_vip_key e service ` set ?vs"
    unfolding vip_result_resources[OF assms(2)] keys_dict_update
    by (simp add: image_image)
  then show ?thesis
    unfolding eq new_vip_key_def by blast
qed

text \<open>
  C1, an instance: one IPv4 and one IPv6 address, both found on \<open>eth0\<close>.
\<close>

theorem vip_resource_names_witness:
  "fst ` set (dict_at (snd (update_hacluster_vip (nova_env ''10.0.0.5 2001:db8::5'') ''nova'' fresh_data))
                ''resources'') = {''res_nova_00d7353_vip'', ''res_nova_532777e_vip''}"
proof -
  have cfg: "get_hacluster_config (nova_env ''10.0.0.5 2001:db8::5'') ''vip'' = Some ''10.0.0.5 2001:db8::5''"
    by (simp add: nova_env_def)
  have ready: "vip_ready fresh_data"
    by (simp add: vip_ready_def fresh_data_def)
  have vs: "filter (has_iface (nova_env ''10.0.0.5 2001:db8::5'')) (split ''10.0.0.5 2001:db8::5'')
            = [''10.0.0.5'', ''2001:db8::5'']"
    by code_simp
  from vip_resource_names[OF cfg ready, of "''nova''"] obtain rd'
    where eq: "update_hacluster_vip (nova_env ''10.0.0.5 2001:db8::5'') ''nova'' fresh_data = (Inr (), rd')"
      and keys: "fst ` set (dict_at rd' ''resources'') =
                 fst ` set (dict_at fresh_data ''resources'') \<union>
                 (\<lambda>vip. ''res_'' @ ''nova'' @ ''_'' @
                    take 7 (sha1_hexdigest (nova_env ''10.0.0.5 2001:db8::5'') vip) @ ''_vip'') `
                 set (filter (has_iface (nova_env ''10.0.0.5 2001:db8::5'')) (split ''10.0.0.5 2001:db8::5''))"
    by blast
  have "fst ` set (dict_at rd' ''resources'') = {''res_nova_00d7353_vip'', ''res_nova_532777e_vip''}"
    unfolding keys vs
    by (simp add: fresh_data_def dict_at_def nova_env_def sha1_known_def)
  then show ?thesis by (simp add: eq)
qed

text \<open>
  C1 as stated fails: for the service \<open>nova\<close> and the VIP \<open>10.0.0.5\<close> the only name in
  \<open>resources\<close> is \<open>res_nova_00d7353_vip\<close>; the name without the \<open>_vip\<close> suffix is not
  recorded.
\<close>

theorem vip_resource_names_counterexample:
  "map fst (dict_at (snd (update_hacluster_vip (nova_env ''10.0.0.5'') ''nova'' fresh_data))
              ''resources'') = [''res_nova_00d7353_vip''] \<and>
   ''res_'' @ ''nova'' @ ''_'' @ take 7 (sha1_hexdigest (nova_env ''10.0.0.5'') ''10.0.0.5'')
     \<notin> set (map fst (dict_at (snd (update_hacluster_vip (nova_env ''10.0.0.5'') ''nova'' fresh_data))
              ''resources''))"
  by code_simp

section \<open>Old-style names\<close>

lemma old_vip_key_eq_iff: "old_vip_key service a = old_vip_key service b \<longleftrightarrow> py_str a = py_str b"
  by (simp add: old_vip_key_def)

lemma suffixed_not_vip: "xs @ ''_vip'' @ ''_'' @ (if b then ''ipv6addr'' else ''ip'') \<noteq> ys @ ''_vip''"
proof
  assume "xs @ ''_vip'' @ ''_'' @ (if b then ''ipv6addr'' else ''ip'') = ys @ ''_vip''"
  then have "rev (xs @ ''_vip'' @ ''_'' @ (if b then ''ipv6addr'' else ''ip'')) = rev (ys @ ''_vip'')"
    by (rule arg_cong)
  then show False by (cases b) simp_all
qed

lemma suffixed_not_old_vip_key:
  "old_vip_key service a @ ''_'' @ vip_params_of e v \<noteq> old_vip_key service b"
  using suffixed_not_vip[of "py_str a" "is_ipv6 e v" "py_str b"]
  by (simp add: old_vip_key_def vip_params_of_def)

lemma old_keys_snoc:
  "old_keys e service d (vs @ [v]) =
   old_keys e service d vs @
     [if old_vip_key service (fst (get_vip_settings e v)) \<in> set (old_keys e service d vs)
      then old_vip_key service (fst (get_vip_settings e v)) @ ''_'' @ vip_params_of e v
      else old_vip_key service (fst (get_vip_settings e v))]"
  by (simp add: old_keys_append)

lemma old_vip_key_in_old_keys:
  "old_vip_key service x \<in> set (old_keys e service d vs) \<longleftrightarrow>
   old_vip_key service x \<in> set d \<or> py_str x \<in> iface_name e ` set vs"
proof (induction vs rule: rev_induct)
  case Nil
  show ?case by simp
next
  case (snoc v vs)
  let ?b = "old_vip_key service (fst (get_vip_settings e v))"
  let ?D = "old_keys e service d vs"
  have ne: "?b @ ''_'' @ vip_params_of e v \<noteq> old_vip_key service x"
    by (rule suffixed_not_old_vip_key)
  have eq: "old_vip_key service x = ?b \<longleftrightarrow> py_str x = iface_name e v"
    by (simp add: old_vip_key_eq_iff iface_name_def)
  show ?case
  proof (cases "?b \<in> set ?D")
    case True
    have "old_vip_key service x \<in> set (?D @ [?b @ ''_'' @ vip_params_of e v]) \<longleftrightarrow>
          old_vip_key service x \<in> set ?D"
      using ne by auto
    moreover have "py_str x = iface_name e v \<Longrightarrow> old_vip_key service x \<in> set ?D"
      using True eq by simp
    ultimately show ?thesis
      unfolding old_keys_snoc using True snoc.IH by auto
  next
    case False
    have "old_vip_key service x \<in> set (?D @ [?b]) \<longleftrightarrow>
          old_vip_key service x \<in> set ?D \<or> py_str x = iface_name e v"
      using eq by auto
    then show ?thesis
      unfolding old_keys_snoc using False snoc.IH by auto
  qed
qed

lemma old_keys_nth_old: "i < length d \<Longrightarrow> old_keys e service d vs ! i = d ! i"
  by (induction vs arbitrary: d) (simp_all add: nth_append)

lemma old_keys_nth:
  assumes "i < length vs"
  shows "old_keys e service [] vs ! i =
         (if iface_name e (vs ! i) \<in> iface_name e ` set (take i vs)
          then ''res_'' @ service @ ''_'' @ iface_name e (vs ! i) @ ''_vip_'' @ vip_params_of e (vs ! i)
          else ''res_'' @ service @ ''_'' @ iface_name e (vs ! i) @ ''_vip'')"
proof -
  let ?D = "old_keys e service [] (take i vs)"
  have split_vs: "vs = (take i vs @ [vs ! i]) @ drop (Suc i) vs"
    using assms by (simp add: id_take_nth_drop[symmetric])
  have len: "length ?D = i"
    using assms by (simp add: old_keys_length)
  have "old_keys e service [] vs ! i =
        old_keys e service (old_keys e service [] (take i vs @ [vs ! i])) (drop (Suc i) vs) ! i"
    using split_vs old_keys_append[of e service "[]" "take i vs @ [vs ! i]" "drop (Suc i) vs"]
    by simp
  also have "\<dots> = old_keys e service [] (take i vs @ [vs ! i]) ! i"
    by (rule old_keys_nth_old) (simp add: old_keys_length assms)
  also have "\<dots> = (if old_vip_key service (fst (get_vip_settings e (vs ! i))) \<in> set ?D
      then old_vip_key service (fst (get_vip_settings e (vs ! i))) @ ''_'' @ vip_params_of e (vs ! i)
      else old_vip_key service (fst (get_vip_settings e (vs ! i))))"
    unfolding old_keys_snoc using len by (simp add: nth_append)
  finally have nth: "old_keys e service [] vs ! i =
      (if old_vip_key service (fst (get_vip_settings e (vs ! i))) \<in> set ?D
       then old_vip_key service (fst (get_vip_settings e (vs ! i))) @ ''_'' @ vip_params_of e (vs ! i)
       else old_vip_key service (fst (get_vip_settings e (vs ! i))))" .
  have mem: "old_vip_key service (fst (get_vip_settings e (vs ! i))) \<in> set ?D \<longleftrightarrow>
             iface_name e (vs ! i) \<in> iface_name e ` set (take i vs)"
    unfolding old_vip_key_in_old_keys by (simp add: iface_name_def)
  show ?thesis
    unfolding nth mem by (simp add: iface_name_def old_vip_key_def)
qed

text \<open>
  C3, as amended. With \<open>vs\<close> the VIPs of the configured list whose interface was identified,
  in order, the builder extends the list under \<open>delete_resources\<close> (or creates it) by one
  old-style name per VIP of \<open>vs\<close>: \<open>res_<service>_<iface>_vip\<close> for the first VIP on an
  interface, and that name followed by \<open>_ip\<close> or \<open>_ipv6addr\<close> (the parameter key) for a VIP
  whose interface an earlier VIP of \<open>vs\<close> already had. Nothing is written when \<open>vs\<close> is empty.
\<close>

theorem old_vip_names_deleted:
  assumes "get_hacluster_config e ''vip'' = Some cfg" and "vip_ready rd"
    and "vs = filter (has_iface e) (split cfg)"
  shows "\<exists>rd' old.
           update_hacluster_vip e service rd = (Inr (), rd') \<and>
           length old = length vs \<and>
           (\<forall>i<length vs.
              old ! i =
                (if iface_name e (vs ! i) \<in> iface_name e ` set (take i vs)
                 then ''res_'' @ service @ ''_'' @ iface_name e (vs ! i) @ ''_vip_'' @
                      (if is_ipv6 e (vs ! i) then ''ipv6addr'' else ''ip'')
                 else ''res_'' @ service @ ''_'' @ iface_name e (vs ! i) @ ''_vip'')) \<and>
           map_of rd' ''delete_resources'' =
             (if vs = [] then map_of rd ''delete_resources''
              else Some (JList (list_at rd ''delete_resources'' @ old)))"
proof -
  have eq: "update_hacluster_vip e service rd = (Inr (), vip_result e service vs rd)"
    unfolding assms(3) by (rule update_hacluster_vip_ok[OF assms(1,2)])
  show ?thesis
  proof (intro exI conjI)
    show "update_hacluster_vip e service rd = (Inr (), vip_result e service vs rd)"
      by (rule eq)
    show "length (old_keys e service [] vs) = length vs"
      by (simp add: old_keys_length)
    show "\<forall>i<length vs.
            old_keys e service [] vs ! i =
              (if iface_name e (vs ! i) \<in> iface_name e ` set (take i vs)
               then ''res_'' @ service @ ''_'' @ iface_name e (vs ! i) @ ''_vip_'' @
                    (if is_ipv6 e (vs ! i) then ''ipv6addr'' else ''ip'')
               else ''res_'' @ service @ ''_'' @ iface_name e (vs ! i) @ ''_vip'')"
      using old_keys_nth[of _ vs e service] by (simp add: vip_params_of_def)
    show "map_of (vip_result e service vs rd) ''delete_resources'' =
            (if vs = [] then map_of rd ''delete_resources''
             else Some (JList (list_at rd ''delete_resources'' @ old_keys e service [] vs)))"
      by (rule vip_result_delete_resources)
  qed
qed

text \<open>
  C3, an instance: the relation data already lists a resource to delete; two VIPs on
  \<open>eth0\<close> add the old-style name and its \<open>_ip\<close> variant behind it.
\<close>

theorem old_vip_names_deleted_witness:
  "list_at (snd (update_hacluster_vip (nova_env ''10.0.0.5 10.0.0.6'') ''nova''
                   (fresh_data @ [(''delete_resources'', JList [''res_nova_old''])])))
     ''delete_resources'' = [''res_nova_old'', ''res_nova_eth0_vip'', ''res_nova_eth0_vip_ip'']"
proof -
  let ?e = "nova_env ''10.0.0.5 10.0.0.6''"
  let ?rd = "fresh_data @ [(''delete_resources'', JList [''res_nova_old''])]"
  have cfg: "get_hacluster_config ?e ''vip'' = Some ''10.0.0.5 10.0.0.6''"
    by (simp add: nova_env_def)
  have ready: "vip_ready ?rd"
    by (simp add: vip_ready_def fresh_data_def)
  have vs: "[''10.0.0.5'', ''10.0.0.6''] = filter (has_iface ?e) (split ''10.0.0.5 10.0.0.6'')"
    by code_simp
  from old_vip_names_deleted[OF cfg ready vs, of "''nova''"] obtain rd' old
    where eq: "update_hacluster_vip ?e ''nova'' ?rd = (Inr (), rd')"
      and len: "length old = length [''10.0.0.5'', ''10.0.0.6'']"
      and nth: "\<forall>i<length [''10.0.0.5'', ''10.0.0.6''].
                  old ! i =
                    (if iface_name ?e ([''10.0.0.5'', ''10.0.0.6''] ! i)
                        \<in> iface_name ?e ` set (take i [''10.0.0.5'', ''10.0.0.6''])
                     then ''res_'' @ ''nova'' @ ''_'' @ iface_name ?e ([''10.0.0.5'', ''10.0.0.6''] ! i) @
                          ''_vip_'' @
                          (if is_ipv6 ?e ([''10.0.0.5'', ''10.0.0.6''] ! i) then ''ipv6addr'' else ''ip'')
                     else ''res_'' @ ''nova'' @ ''_'' @
                          iface_name ?e ([''10.0.0.5'', ''10.0.0.6''] ! i) @ ''_vip'')"
      and del: "map_of rd' ''delete_resources'' =
                  (if [''10.0.0.5'', ''10.0.0.6''] = [] then map_of ?rd ''delete_resources''
                   else Some (JList (list_at ?rd ''delete_resources'' @ old)))"
    by blast
  have iface: "iface_name ?e v = ''eth0''" for v
    by (simp add: iface_name_def get_vip_settings_def of_lookup_def nova_env_def)
  have v4: "\<not> is_ipv6 ?e ''10.0.0.6''"
    by (simp add: nova_env_def)
  from len obtain a b where old: "old = [a, b]"
    by (cases old; cases "tl old") auto
  from nth[rule_format, of 0] have a: "a = ''res_nova_eth0_vip''"
    by (simp add: old iface)
  from nth[rule_format, of 1] have b: "b = ''res_nova_eth0_vip_ip''"
    by (simp add: old iface v4)
  have "list_at ?rd ''delete_resources'' = [''res_nova_old'']"
    by (simp add: list_at_def fresh_data_def)
  with del show ?thesis
    by (simp add: eq old a b list_at_def)
qed

text \<open>
  C3 as stated fails. For the service \<open>nova\<close> and the VIP \<open>10.0.0.5\<close> on \<open>eth0\<close> the list
  under \<open>delete_resources\<close> holds \<open>res_nova_eth0_vip\<close>, not \<open>res_nova_eth0\<close>, and so does the
  encoded \<open>json_delete_resources\<close>; and three IPv4 addresses on \<open>eth0\<close> put
  \<open>res_nova_eth0_vip_ip\<close> into the list twice.
\<close>

theorem old_vip_names_deleted_counterexample:
  \<open>list_at (snd (update_hacluster_vip (nova_env ''10.0.0.5'') ''nova'' fresh_data))
     ''delete_resources'' = [''res_nova_eth0_vip''] \<and>
   ''res_nova_eth0'' \<notin> set (list_at (snd (update_hacluster_vip (nova_env ''10.0.0.5'') ''nova''
                                         fresh_data)) ''delete_resources'') \<and>
   encoded (generate_ha_relation_data (nova_env ''10.0.0.5'') ''nova'' True None no_juju)
     ''json_delete_resources'' = Some ''["res_nova_eth0_vip"]'' \<and>
   list_at (snd (update_hacluster_vip (nova_env ''10.0.0.5 10.0.0.6 10.0.0.7'') ''nova'' fresh_data))
     ''delete_resources'' = [''res_nova_eth0_vip'', ''res_nova_eth0_vip_ip'', ''res_nova_eth0_vip_ip''] \<and>
   \<not> distinct (list_at (snd (update_hacluster_vip (nova_env ''10.0.0.5 10.0.0.6 10.0.0.7'') ''nova''
                              fresh_data)) ''delete_resources'')\<close>
  by code_simp

section \<open>Parameter strings\<close>

lemma vip_params_string_eq:
  \<open>vip_params_string e vip =
     (if get_iface_for_address e vip = None \<or> get_netmask_for_address e vip = None
      then ''params '' @ (if is_ipv6 e vip then ''ipv6addr'' else ''ip'') @ ''="'' @ vip @
           ''" cidr_netmask="'' @
           (case get_netmask_for_address e vip of
              Some m \<Rightarrow> m | None \<Rightarrow> py_str (config e ''vip_cidr'')) @
           ''" nic="'' @
           (case get_iface_for_address e vip of
              Some i \<Rightarrow> i | None \<Rightarrow> py_str (config e ''vip_iface'')) @
           ''" op monitor depth="0" timeout="20s" interval="10s"''
      else ''params '' @ (if is_ipv6 e vip then ''ipv6addr'' else ''ip'') @ ''="'' @ vip @
           ''" op monitor depth="0" timeout="20s" interval="10s"'')\<close>
  by (cases "get_iface_for_address e vip"; cases "get_netmask_for_address e vip")
     (simp_all add: vip_params_string_def get_vip_settings_def of_lookup_def fallback_params_def
        detected_params_def vip_monitoring_def vip_params_of_def)

lemma map_of_dict_update_last:
  assumes "(k, v) \<in> set kvs" and "\<forall>v'. (k, v') \<in> set kvs \<longrightarrow> v' = v"
  shows "map_of (dict_update d kvs) k = Some v"
proof -
  have "map_of (rev kvs) k = Some v"
  proof (rule map_of_unique)
    show "(k, v) \<in> set (rev kvs)" using assms(1) by simp
    show "\<forall>v'. (k, v') \<in> set (rev kvs) \<longrightarrow> v' = v" using assms(2) by simp
  qed
  then show ?thesis
    by (simp add: map_of_dict_update map_add_def)
qed

text \<open>
  C4, as amended. For a VIP of the configured list whose interface was identified (and whose
  resource name no other VIP of the list shares), the string stored in \<open>resource_params\<close>
  starts with the keyword \<open>params\<close> and ends with the monitor operation. When discovery
  found no interface or no netmask, it names the address, \<open>cidr_netmask\<close> and \<open>nic\<close>, with
  the option \<open>vip_cidr\<close> or \<open>vip_iface\<close> in the place of what was not found; when both were
  found, it names the address alone. The parameter key is \<open>ipv6addr\<close> for an IPv6 address and
  \<open>ip\<close> otherwise.
\<close>

theorem vip_parameter_string:
  assumes "get_hacluster_config e ''vip'' = Some cfg" and "vip_ready rd"
    and "vip \<in> set (split cfg)" and "has_iface e vip"
    and "\<forall>v \<in> set (split cfg).
           has_iface e v \<and> new_vip_key e service v = new_vip_key e service vip \<longrightarrow> v = vip"
  shows \<open>\<exists>rd'.
           update_hacluster_vip e service rd = (Inr (), rd') \<and>
           map_of (dict_at rd' ''resource_params'') (new_vip_key e service vip) =
             Some (if get_iface_for_address e vip = None \<or> get_netmask_for_address e vip = None
                   then ''params '' @ (if is_ipv6 e vip then ''ipv6addr'' else ''ip'') @
                        ''="'' @ vip @ ''" cidr_netmask="'' @
                        (case get_netmask_for_address e vip of
                           Some m \<Rightarrow> m | None \<Rightarrow> py_str (config e ''vip_cidr'')) @
                        ''" nic="'' @
                        (case get_iface_for_address e vip of
                           Some i \<Rightarrow> i | None \<Rightarrow> py_str (config e ''vip_iface'')) @
                        ''" op monitor depth="0" timeout="20s" interval="10s"''
                   else ''params '' @ (if is_ipv6 e vip then ''ipv6addr'' else ''ip'') @
                        ''="'' @ vip @ ''" op monitor depth="0" timeout="20s" interval="10s"'')\<close>
proof -
  let ?vs = "filter (has_iface e) (split cfg)"
  let ?kvs = "map (\<lambda>v. (new_vip_key e service v, vip_params_string e v)) ?vs"
  have eq: "update_hacluster_vip e service rd = (Inr (), vip_result e service ?vs rd)"
    by (rule update_hacluster_vip_ok[OF assms(1,2)])
  have mem: "(new_vip_key e service vip, vip_params_string e vip) \<in> set ?kvs"
    using assms(3,4) by auto
  have uniq: "\<forall>v'. (new_vip_key e service vip, v') \<in> set ?kvs \<longrightarrow> v' = vip_params_string e vip"
    using assms(5) by auto
  have "map_of (dict_at (vip_result e service ?vs rd) ''resource_params'') (new_vip_key e service vip)
        = Some (vip_params_string e vip)"
    unfolding vip_result_resource_params[OF assms(2)]
    by (rule map_of_dict_update_last[OF mem uniq])
  then have "\<exists>rd'. update_hacluster_vip e service rd = (Inr (), rd') \<and>
          map_of (dict_at rd' ''resource_params'') (new_vip_key e service vip) =
          Some (vip_params_string e vip)"
    using eq by simp
  then show ?thesis
    unfolding vip_params_string_eq .
qed

text \<open>
  C4, an instance: no interface is discovered for \<open>10.0.0.5\<close>; the options give \<open>eth1\<close> and
  the prefix length 24.
\<close>

theorem vip_parameter_string_witness:
  \<open>map_of (dict_at (snd (update_hacluster_vip
                           (undiscovered_env ''10.0.0.5'' (PyStr ''eth1'') (PyInt 24)) ''nova'' fresh_data))
             ''resource_params'') ''res_nova_00d7353_vip'' =
   Some ''params ip="10.0.0.5" cidr_netmask="24" nic="eth1" op monitor depth="0" timeout="20s" interval="10s"''\<close>
proof -
  let ?e = "undiscovered_env ''10.0.0.5'' (PyStr ''eth1'') (PyInt 24)"
  have cfg: "get_hacluster_config ?e ''vip'' = Some ''10.0.0.5''"
    by (simp add: undiscovered_env_def nova_env_def)
  have ready: "vip_ready fresh_data"
    by (simp add: vip_ready_def fresh_data_def)
  have sp: "split ''10.0.0.5'' = [''10.0.0.5'']"
    by code_simp
  have vip: "''10.0.0.5'' \<in> set (split ''10.0.0.5'')"
    by (simp add: sp)
  have iface: "has_iface ?e ''10.0.0.5''"
    by (simp add: has_iface_def get_vip_settings_def of_lookup_def undiscovered_env_def nova_env_def)
  have uniq: "\<forall>v \<in> set (split ''10.0.0.5'').
                has_iface ?e v \<and> new_vip_key ?e ''nova'' v = new_vip_key ?e ''nova'' ''10.0.0.5''
                \<longrightarrow> v = ''10.0.0.5''"
    by (simp add: sp)
  have key: "new_vip_key ?e ''nova'' ''10.0.0.5'' = ''res_nova_00d7353_vip''"
    by (simp add: new_vip_key_def undiscovered_env_def nova_env_def sha1_known_def)
  have cidr: "py_str (config ?e ''vip_cidr'') = ''24''"
    by code_simp
  have nic: "py_str (config ?e ''vip_iface'') = ''eth1''"
    by (simp add: undiscovered_env_def)
  have none: "get_iface_for_address ?e ''10.0.0.5'' = None"
    "get_netmask_for_address ?e ''10.0.0.5'' = None"
    by (simp_all add: undiscovered_env_def)
  have v4: "\<not> is_ipv6 ?e ''10.0.0.5''"
    by (simp add: undiscovered_env_def nova_env_def)
  have \<open>\<exists>rd'. update_hacluster_vip ?e ''nova'' fresh_data = (Inr (), rd') \<and>
          map_of (dict_at rd' ''resource_params'') ''res_nova_00d7353_vip'' =
          Some ''params ip="10.0.0.5" cidr_netmask="24" nic="eth1" op monitor depth="0" timeout="20s" interval="10s"''\<close>
    using vip_parameter_string[OF cfg ready vip iface uniq]
    unfolding key none by (simp add: cidr nic v4)
  then show ?thesis
    by (elim exE conjE) simp
qed

text \<open>
  C4 as stated fails: with both the interface and the netmask discovered, the string stored
  for \<open>10.0.0.5\<close> is \<open>params ip="10.0.0.5" op monitor ...\<close>, not \<open>ip="10.0.0.5" op monitor ...\<close>.
\<close>

theorem vip_parameter_string_counterexample:
  \<open>map_of (dict_at (snd (update_hacluster_vip (nova_env ''10.0.0.5'') ''nova'' fresh_data))
             ''resource_params'') ''res_nova_00d7353_vip'' =
     Some ''params ip="10.0.0.5" op monitor depth="0" timeout="20s" interval="10s"'' \<and>
   map_of (dict_at (snd (update_hacluster_vip (nova_env ''10.0.0.5'') ''nova'' fresh_data))
             ''resource_params'') ''res_nova_00d7353_vip'' \<noteq>
     Some (''ip'' @ ''="'' @ ''10.0.0.5'' @ ''" '' @
           ''op monitor depth="0" timeout="20s" interval="10s"'')\<close>
  by code_simp

section \<open>Splitting a joined list\<close>

lemma split_from_word:
  "\<forall>c \<in> set w. \<not> is_space c \<Longrightarrow> split_from cur (w @ s) = split_from (cur @ w) s"
  by (induction w arbitrary: cur) simp_all

lemma is_space_blank: "is_space CHR '' ''"
  by (simp add: is_space_def)

lemma split_from_join:
  "\<forall>w \<in> set ws. w \<noteq> [] \<and> (\<forall>c \<in> set w. \<not> is_space c) \<Longrightarrow>
   split_from [] (join '' '' ws) = ws"
proof (induction "'' ''" ws rule: join.induct)
  case 1
  show ?case by simp
next
  case (2 x)
  then show ?case
    using split_from_word[of x "[]" "[]"] by simp
next
  case (3 x y ys)
  then show ?case
    using split_from_word[of x "[]" "'' '' @ join '' '' (y # ys)"]
    by (simp add: is_space_blank)
qed

lemma split_join:
  "\<forall>w \<in> set ws. w \<noteq> [] \<and> (\<forall>c \<in> set w. \<not> is_space c) \<Longrightarrow> split (join '' '' ws) = ws"
  by (simp add: split_def split_from_join)

lemma no_space_literal [simp]:
  "\<not> is_space CHR ''r''" "\<not> is_space CHR ''e''" "\<not> is_space CHR ''s''" "\<not> is_space CHR ''_''"
  "\<not> is_space CHR ''v''" "\<not> is_space CHR ''i''" "\<not> is_space CHR ''p''"
  by (simp_all add: is_space_def)

text \<open>
  C5, as amended. With \<open>vs\<close> the VIPs of the configured list whose interface was identified,
  in order and with repetitions: when \<open>vs\<close> is not empty the builder sets the one key
  \<open>grp_<service>_vips\<close> of \<open>groups\<close> (keeping the other entries of a \<open>groups\<close> mapping that is
  already there) to the current resource names of \<open>vs\<close> joined by blanks, one member for each
  VIP of \<open>vs\<close>; when \<open>vs\<close> is empty it leaves \<open>groups\<close> as it was. Where neither the service
  name nor the digests contain whitespace, splitting the joined string gives back these
  names, so it has as many members as \<open>vs\<close> has VIPs.
\<close>

theorem vip_group_members:
  assumes "get_hacluster_config e ''vip'' = Some cfg" and "vip_ready rd"
    and "vs = filter (has_iface e) (split cfg)"
    and "names = map (\<lambda>vip. ''res_'' @ service @ ''_'' @ take 7 (sha1_hexdigest e vip) @ ''_vip'') vs"
  shows "\<exists>rd'.
           update_hacluster_vip e service rd = (Inr (), rd') \<and>
           map_of rd' ''groups'' =
             (if vs = [] then map_of rd ''groups''
              else Some (JDict (dict_set (''grp_'' @ service @ ''_vips'') (join '' '' names)
                                  (dict_at rd ''groups'')))) \<and>
           length names = length vs \<and>
           ((\<forall>c \<in> set service. \<not> is_space c) \<and>
            (\<forall>vip \<in> set vs. \<forall>c \<in> set (take 7 (sha1_hexdigest e vip)). \<not> is_space c)
            \<longrightarrow> split (join '' '' names) = names)"
proof -
  have eq: "update_hacluster_vip e service rd = (Inr (), vip_result e service vs rd)"
    unfolding assms(3) by (rule update_hacluster_vip_ok[OF assms(1,2)])
  have names: "names = map (new_vip_key e service) vs"
    by (simp add: assms(4) new_vip_key_def)
  have grp: "map_of (vip_result e service vs rd) ''groups'' =
        (if vs = [] then map_of rd ''groups''
         else Some (JDict (dict_set (''grp_'' @ service @ ''_vips'') (join '' '' names)
                             (dict_at rd ''groups''))))"
    by (simp add: vip_result_groups names VIP_GROUP_NAME_def)
  have sp: "split (join '' '' names) = names"
    if "\<forall>c \<in> set service. \<not> is_space c"
      and "\<forall>vip \<in> set vs. \<forall>c \<in> set (take 7 (sha1_hexdigest e vip)). \<not> is_space c"
  proof (rule split_join)
    show "\<forall>w \<in> set names. w \<noteq> [] \<and> (\<forall>c \<in> set w. \<not> is_space c)"
      using that by (auto simp: assms(4))
  qed
  show ?thesis
    using eq grp sp by (simp add: assms(4))
qed

text \<open>
  C5, an instance: the VIPs \<open>10.0.0.5\<close> and \<open>2001:db8::5\<close> for the service \<open>nova\<close>, where a
  group of another charm is already in the relation data.
\<close>

theorem vip_group_members_witness:
  "map_of (snd (update_hacluster_vip (nova_env ''10.0.0.5 2001:db8::5'') ''nova''
                  (fresh_data @ [(''groups'', JDict [(''grp_ks_vips'', ''res_ks_vip'')])])))
     ''groups'' =
   Some (JDict [(''grp_ks_vips'', ''res_ks_vip''),
                (''grp_nova_vips'', ''res_nova_00d7353_vip res_nova_532777e_vip'')]) \<and>
   split ''res_nova_00d7353_vip res_nova_532777e_vip'' =
     [''res_nova_00d7353_vip'', ''res_nova_532777e_vip'']"
proof -
  let ?e = "nova_env ''10.0.0.5 2001:db8::5''"
  let ?rd = "fresh_data @ [(''groups'', JDict [(''grp_ks_vips'', ''res_ks_vip'')])]"
  let ?names = "[''res_nova_00d7353_vip'', ''res_nova_532777e_vip'']"
  have cfg: "get_hacluster_config ?e ''vip'' = Some ''10.0.0.5 2001:db8::5''"
    by (simp add: nova_env_def)
  have ready: "vip_ready ?rd"
    by (simp add: vip_ready_def fresh_data_def)
  have vs: "[''10.0.0.5'', ''2001:db8::5''] = filter (has_iface ?e) (split ''10.0.0.5 2001:db8::5'')"
    by code_simp
  have names: "?names =
      map (\<lambda>vip. ''res_'' @ ''nova'' @ ''_'' @ take 7 (sha1_hexdigest ?e vip) @ ''_vip'')
        [''10.0.0.5'', ''2001:db8::5'']"
    by (simp add: nova_env_def sha1_known_def)
  have nospace: "(\<forall>c \<in> set ''nova''. \<not> is_space c) \<and>
      (\<forall>vip \<in> set [''10.0.0.5'', ''2001:db8::5''].
         \<forall>c \<in> set (take 7 (sha1_hexdigest ?e vip)). \<not> is_space c)"
    by (simp add: nova_env_def sha1_known_def is_space_def)
  have j: "join '' '' ?names = ''res_nova_00d7353_vip res_nova_532777e_vip''"
    by simp
  have g: "dict_at ?rd ''groups'' = [(''grp_ks_vips'', ''res_ks_vip'')]"
    by (simp add: dict_at_def fresh_data_def)
  have "\<exists>rd'. update_hacluster_vip ?e ''nova'' ?rd = (Inr (), rd') \<and>
          map_of rd' ''groups'' =
            Some (JDict [(''grp_ks_vips'', ''res_ks_vip''),
                         (''grp_nova_vips'', ''res_nova_00d7353_vip res_nova_532777e_vip'')]) \<and>
          split ''res_nova_00d7353_vip res_nova_532777e_vip'' = ?names"
    using vip_group_members[OF cfg ready vs names] nospace
    unfolding j g by simp
  then show ?thesis
    by (elim exE conjE) simp
qed

text \<open>
  C5 as stated fails. A VIP given twice is a member twice: for \<open>10.0.0.5 10.0.0.5\<close> the group
  has two members and the list one distinct VIP. And a VIP without an interface is no
  member: for \<open>10.0.0.5\<close> with nothing discovered and no \<open>vip_iface\<close> option the builder
  writes no \<open>groups\<close> at all.
\<close>

theorem vip_group_members_counterexample:
  "map_of (snd (update_hacluster_vip (nova_env ''10.0.0.5 10.0.0.5'') ''nova'' fresh_data)) ''groups'' =
     Some (JDict [(''grp_nova_vips'', ''res_nova_00d7353_vip res_nova_00d7353_vip'')]) \<and>
   length (split ''res_nova_00d7353_vip res_nova_00d7353_vip'') = 2 \<and>
   card (set (split ''10.0.0.5 10.0.0.5'')) = 1 \<and>
   length (split ''10.0.0.5'') = 1 \<and>
   update_hacluster_vip (undiscovered_env ''10.0.0.5'' PyNone PyNone) ''nova'' fresh_data =
     (Inr (), fresh_data) \<and>
   map_of fresh_data ''groups'' = None"
  by code_simp

section \<open>VIPs without an interface\<close>

lemma not_has_iface:
  "get_iface_for_address e vip = None \<Longrightarrow> config e ''vip_iface'' = PyNone \<Longrightarrow> \<not> has_iface e vip"
  by (simp add: has_iface_def get_vip_settings_def of_lookup_def Let_def)

lemma get_vip_settings_other_config:
  "get_vip_settings (e\<lparr>get_hacluster_config := h\<rparr>) vip = get_vip_settings e vip"
  by (simp add: get_vip_settings_def Let_def)

lemma vip_loop_filter:
  "vip_loop e service vips g d rd = vip_loop e service (filter (has_iface e) vips) g d rd"
proof (induction vips arbitrary: g d rd)
  case Nil
  show ?case by simp
next
  case (Cons v vs)
  show ?case
  proof (cases "has_iface e v")
    case False
    then show ?thesis
      using Cons.IH by (simp add: vip_loop_skip del: vip_loop.simps)
  next
    case True
    then show ?thesis
      using Cons.IH by (simp add: Let_def split: prod.splits sum.splits)
  qed
qed

lemma vip_loop_other_config:
  "vip_loop (e\<lparr>get_hacluster_config := h\<rparr>) service vips g d rd = vip_loop e service vips g d rd"
  by (induction vips arbitrary: g d rd)
     (simp_all add: get_vip_settings_other_config res_vip_of_def vip_params_of_def new_vip_key_def
        Let_def split: prod.splits sum.splits)

lemma has_iface_other_config: "has_iface (e\<lparr>get_hacluster_config := h\<rparr>) = has_iface e"
  by (simp add: fun_eq_iff has_iface_def get_vip_settings_other_config)

lemma filter_removeAll_dropped:
  "\<not> P x \<Longrightarrow> filter P (removeAll x xs) = filter P xs"
  by (induction xs) auto

text \<open>
  C10. Let no interface be discovered for a VIP and let the option \<open>vip_iface\<close> be unset.
  Then the loop body does nothing for this VIP: wherever it stands in the list, the loop
  ends as it does on the list without it, with the same \<open>resources\<close>, \<open>resource_params\<close>,
  group members and names to delete, and with an error only if the other VIPs raise one.
  So \<open>update_hacluster_vip\<close> gives what it gives when the VIP is taken out of the
  configuration, and on a list of such VIPs alone it returns normally and leaves the
  relation data as it was.
\<close>

theorem vip_without_interface_dropped:
  assumes "get_iface_for_address e vip = None" and "config e ''vip_iface'' = PyNone"
  shows "vip_loop e service (before @ vip # after) g d rd =
           vip_loop e service (before @ after) g d rd \<and>
         (get_hacluster_config e ''vip'' = Some cfg \<and> split cfg' = removeAll vip (split cfg) \<longrightarrow>
            update_hacluster_vip e service rd =
            update_hacluster_vip (e\<lparr>get_hacluster_config := [''vip'' \<mapsto> cfg']\<rparr>) service rd) \<and>
         (get_hacluster_config e ''vip'' = Some cfg \<and> set (split cfg) \<subseteq> {vip} \<longrightarrow>
            update_hacluster_vip e service rd = (Inr (), rd))"
proof (intro conjI impI)
  have no: "\<not> has_iface e vip"
    by (rule not_has_iface[OF assms])
  show "vip_loop e service (before @ vip # after) g d rd = vip_loop e service (before @ after) g d rd"
    using no
    by (simp add: vip_loop_filter[of e service "before @ vip # after"]
                  vip_loop_filter[of e service "before @ after"] del: vip_loop.simps)
  show "update_hacluster_vip e service rd =
        update_hacluster_vip (e\<lparr>get_hacluster_config := [''vip'' \<mapsto> cfg']\<rparr>) service rd"
    if "get_hacluster_config e ''vip'' = Some cfg \<and> split cfg' = removeAll vip (split cfg)"
  proof -
    have "vip_loop e service (split cfg') [] [] rd = vip_loop e service (split cfg) [] [] rd"
      using that no
      by (simp add: vip_loop_filter[of e service "removeAll vip (split cfg)"]
                    vip_loop_filter[of e service "split cfg"] filter_removeAll_dropped)
    then show ?thesis
      using that by (simp add: update_hacluster_vip_def vip_loop_other_config)
  qed
  show "update_hacluster_vip e service rd = (Inr (), rd)"
    if "get_hacluster_config e ''vip'' = Some cfg \<and> set (split cfg) \<subseteq> {vip}"
  proof -
    have "filter (has_iface e) (split cfg) = []"
      using that no by (auto simp: filter_empty_conv)
    then have "vip_loop e service (split cfg) [] [] rd = (Inr ([], []), rd)"
      by (simp add: vip_loop_filter[of e service "split cfg"])
    then show ?thesis
      using that by (simp add: update_hacluster_vip_def)
  qed
qed

text \<open>
  C10, an instance: of the VIPs \<open>10.0.0.5 10.0.0.6\<close>, with nothing discovered and no
  \<open>vip_iface\<close> option, the second is dropped, and so is the first: the builder returns the
  relation data unchanged and raises nothing.
\<close>

theorem vip_without_interface_dropped_witness:
  "vip_loop (undiscovered_env ''10.0.0.5 10.0.0.6'' PyNone PyNone) ''nova''
     ([''10.0.0.5''] @ ''10.0.0.6'' # []) [] [] fresh_data =
   vip_loop (undiscovered_env ''10.0.0.5 10.0.0.6'' PyNone PyNone) ''nova''
     ([''10.0.0.5''] @ []) [] [] fresh_data \<and>
   update_hacluster_vip (undiscovered_env ''10.0.0.5 10.0.0.6'' PyNone PyNone) ''nova'' fresh_data =
   update_hacluster_vip
     ((undiscovered_env ''10.0.0.5 10.0.0.6'' PyNone PyNone)\<lparr>get_hacluster_config := [''vip'' \<mapsto> ''10.0.0.5'']\<rparr>)
     ''nova'' fresh_data \<and>
   update_hacluster_vip (undiscovered_env ''10.0.0.6'' PyNone PyNone) ''nova'' fresh_data =
     (Inr (), fresh_data)"
proof -
  let ?e = "undiscovered_env ''10.0.0.5 10.0.0.6'' PyNone PyNone"
  let ?e1 = "undiscovered_env ''10.0.0.6'' PyNone PyNone"
  have a: "get_iface_for_address ?e ''10.0.0.6'' = None" "config ?e ''vip_iface'' = PyNone"
    "get_iface_for_address ?e1 ''10.0.0.6'' = None" "config ?e1 ''vip_iface'' = PyNone"
    by (simp_all add: undiscovered_env_def)
  have c: "get_hacluster_config ?e ''vip'' = Some ''10.0.0.5 10.0.0.6'' \<and>
           split ''10.0.0.5'' = removeAll ''10.0.0.6'' (split ''10.0.0.5 10.0.0.6'')"
    by code_simp
  have c1: "get_hacluster_config ?e1 ''vip'' = Some ''10.0.0.6'' \<and>
            set (split ''10.0.0.6'') \<subseteq> {''10.0.0.6''}"
    by code_simp
  from vip_without_interface_dropped[OF a(1,2), of "''nova''" "[''10.0.0.5'']" "[]" "[]" "[]"
         fresh_data "''10.0.0.5 10.0.0.6''" "''10.0.0.5''"]
       vip_without_interface_dropped[OF a(3,4), of "''nova''" "[]" "[]" "[]" "[]"
         fresh_data "''10.0.0.6''" "''10.0.0.6''"]
       c c1
  show ?thesis by blast
qed

section \<open>The loop of the DNS-HA builder\<close>

lemma endpoint_type_of_settings:
  "\<forall>s \<in> set dns_settings. endpoint_type_of s = Some (dns_endpoint s)"
  by code_simp

lemma dns_endpoints: "map dns_endpoint dns_settings = [''admin'', ''int'', ''public'', ''access'']"
  by code_simp

lemma dns_keys_distinct:
  "distinct (map (\<lambda>s. hostname_key_of service (dns_endpoint s)) dns_settings)"
proof -
  have "map (\<lambda>s. hostname_key_of service (dns_endpoint s)) dns_settings =
        map (hostname_key_of service) (map dns_endpoint dns_settings)"
    by simp
  then show ?thesis
    unfolding dns_endpoints by (simp add: hostname_key_of_def)
qed

lemma dns_skipped_Nil: "dns_skipped e [] w = w"
  by (simp add: dns_skipped_def)

lemma dns_skipped_Cons:
  "dns_skipped e (s # ss) w =
   (if config e s = PyNone
    then dns_skipped e ss (log_debug (''DNS HA: Hostname setting '' @ s @ '' is None. Ignoring.'') w)
    else dns_skipped e ss w)"
  by (simp add: dns_skipped_def log_debug_def)

lemma dns_ha_loop_ok:
  assumes "\<forall>s \<in> set settings. endpoint_type_of s = Some (dns_endpoint s)"
    and "distinct (map (\<lambda>s. hostname_key_of service (dns_endpoint s)) settings)"
    and "\<forall>s \<in> set settings. hostname_key_of service (dns_endpoint s) \<notin> set g"
    and "map_of rd ''resources'' = Some (JDict r)"
    and "map_of rd ''resource_params'' = Some (JDict p)"
  shows "dns_ha_loop e service crm settings g rd w =
         (Inr (g @ map (\<lambda>s. hostname_key_of service (dns_endpoint s))
                     (filter (\<lambda>s. config e s \<noteq> PyNone) settings)),
          dns_data e service crm (filter (\<lambda>s. config e s \<noteq> PyNone) settings) rd,
          dns_skipped e settings w)"
  using assms
proof (induction settings arbitrary: g rd w r p)
  case Nil
  then show ?case
    by (simp add: dns_data_def dict_at_def dict_update_def dict_set_same map_of_dict_set
          dns_skipped_Nil)
next
  case (Cons s ss)
  have ep: "endpoint_type_of s = Some (dns_endpoint s)"
    using Cons.prems(1) by simp
  have rest: "\<forall>s \<in> set ss. endpoint_type_of s = Some (dns_endpoint s)"
    "distinct (map (\<lambda>s. hostname_key_of service (dns_endpoint s)) ss)"
    using Cons.prems(1,2) by simp_all
  show ?case
  proof (cases "config e s = PyNone")
    case True
    have "\<forall>s \<in> set ss. hostname_key_of service (dns_endpoint s) \<notin> set g"
      using Cons.prems(3) by simp
    from Cons.IH[OF rest this Cons.prems(4,5)] True show ?thesis
      by (simp add: dns_skipped_Cons)
  next
    case False
    let ?k = "hostname_key_of service (dns_endpoint s)"
    let ?r2 = "dict_set ?k crm r"
    let ?p2 = "dict_set ?k (dns_params e (config e s) (dns_endpoint s)) p"
    let ?rd2 = "dict_set ''resource_params'' (JDict ?p2) (dict_set ''resources'' (JDict ?r2) rd)"
    have fresh: "?k \<notin> set g"
      using Cons.prems(3) by simp
    have fresh': "\<forall>s \<in> set ss. hostname_key_of service (dns_endpoint s) \<notin> set (g @ [?k])"
      using Cons.prems(2,3) by (auto simp: image_iff)
    have r2: "map_of ?rd2 ''resources'' = Some (JDict ?r2)"
      and p2: "map_of ?rd2 ''resource_params'' = Some (JDict ?p2)"
      by (simp_all add: map_of_dict_set)
    have step: "dns_ha_loop e service crm (s # ss) g rd w =
                dns_ha_loop e service crm ss (g @ [?k]) ?rd2 w"
      using False ep fresh Cons.prems(4,5)
      by (simp add: setitem2_dict map_of_dict_set Let_def)
    have mem: "''resources'' \<in> fst ` set (dict_set ''resources'' (JDict ?r2) rd)"
      by (simp add: keys_dict_set)
    have comm: "dict_set ''resources'' a
                  (dict_set ''resource_params'' b (dict_set ''resources'' (JDict ?r2) rd))
                = dict_set ''resource_params'' b (dict_set ''resources'' a rd)" for a b
      using dict_set_commute[of "''resources''" "''resource_params''"
                                "dict_set ''resources'' (JDict ?r2) rd"] mem
      by (simp add: dict_set_twice)
    have data: "dns_data e service crm (filter (\<lambda>s. config e s \<noteq> PyNone) ss) ?rd2 =
                dns_data e service crm (filter (\<lambda>s. config e s \<noteq> PyNone) (s # ss)) rd"
      using False Cons.prems(4,5)
      by (simp add: dns_data_def dict_at_def map_of_dict_set comm dict_set_twice dict_update_def)
    show ?thesis
      unfolding step Cons.IH[OF rest fresh' r2 p2] data
      using False by (simp add: dns_skipped_Cons)
  qed
qed

lemma assert_supported:
  "lsb_release e ''DISTRIB_RELEASE'' = Some release \<Longrightarrow> \<not> release < ''16.04'' \<Longrightarrow>
   assert_charm_supports_dns_ha e w = (Inr True, w)"
  by (simp add: assert_charm_supports_dns_ha_def)

lemma update_hacluster_dns_ha_ok:
  assumes "lsb_release e ''DISTRIB_RELEASE'' = Some release" and "\<not> release < ''16.04''"
    and "dns_ready rd"
  shows "update_hacluster_dns_ha e service crm rd w =
         (if usable_settings e = []
          then (Inl (DNSHAException dns_ha_no_members_msg), rd,
                status_set ''blocked'' dns_ha_no_members_msg (dns_skipped e dns_settings w))
          else (Inr (),
                dict_set ''groups''
                  (JDict [(DNSHA_GROUP_NAME service,
                           join '' '' (map (\<lambda>s. hostname_key_of service (dns_endpoint s))
                                         (usable_settings e)))])
                  (dns_data e service crm (usable_settings e) rd),
                log_debug (''DNS HA: Hostname group is set with '' @
                           join '' '' (map (\<lambda>s. hostname_key_of service (dns_endpoint s))
                                         (usable_settings e)) @
                           '' as members. Informing the ha relation'')
                  (dns_skipped e dns_settings w)))"
proof -
  from assms(3) obtain r p where r: "map_of rd ''resources'' = Some (JDict r)"
    and p: "map_of rd ''resource_params'' = Some (JDict p)"
    by (auto simp: dns_ready_def is_dict_iff)
  have loop: "dns_ha_loop e service crm dns_settings [] rd w =
        (Inr (map (\<lambda>s. hostname_key_of service (dns_endpoint s)) (usable_settings e)),
         dns_data e service crm (usable_settings e) rd, dns_skipped e dns_settings w)"
    using dns_ha_loop_ok[OF endpoint_type_of_settings dns_keys_distinct _ r p,
            where g = "[]" and e = e and crm = crm and w = w and service = service]
    by (simp add: usable_settings_def)
  have same: "dns_data e service crm [] rd = rd"
    using r p by (simp add: dns_data_def dict_at_def dict_update_def dict_set_same map_of_dict_set)
  show ?thesis
  proof (cases "usable_settings e = []")
    case True
    then show ?thesis
      by (simp add: update_hacluster_dns_ha_def assert_supported[OF assms(1,2)] loop same)
  next
    case False
    then have "1 \<le> length (map (\<lambda>s. hostname_key_of service (dns_endpoint s)) (usable_settings e))"
      by (cases "usable_settings e") simp_all
    then show ?thesis
      using False
      by (simp add: update_hacluster_dns_ha_def assert_supported[OF assms(1,2)] loop
               del: One_nat_def)
  qed
qed

lemma dns_data_resources:
  "dns_ready rd \<Longrightarrow>
   dict_at (dict_set ''groups'' grp (dns_data e service crm settings rd)) ''resources'' =
   dict_update (dict_at rd ''resources'')
     (map (\<lambda>s. (hostname_key_of service (dns_endpoint s), crm)) settings)"
  by (simp add: dns_data_def dict_at_def map_of_dict_set)

lemma dns_data_resource_params:
  "dns_ready rd \<Longrightarrow>
   dict_at (dict_set ''groups'' grp (dns_data e service crm settings rd)) ''resource_params'' =
   dict_update (dict_at rd ''resource_params'')
     (map (\<lambda>s. (hostname_key_of service (dns_endpoint s),
                dns_params e (config e s) (dns_endpoint s))) settings)"
  by (simp add: dns_data_def dict_at_def map_of_dict_set)

lemma workload_status_dns_skipped: "workload_status (dns_skipped e settings w) = workload_status w"
  by (simp add: dns_skipped_def)

lemma dns_ha_loop_not_unsupported:
  "fst (dns_ha_loop e service crm settings g rd w) \<noteq> Inl (DNSHAException dns_ha_unsupported_msg)"
proof (induction settings arbitrary: g rd w)
  case Nil
  show ?case by simp
next
  case (Cons s ss)
  show ?case
    using Cons.IH
    by (auto simp: Let_def setitem2_def dns_ha_unsupported_msg_def
             split: option.splits jval.splits sum.splits)
qed

text \<open>
  C6. On a supported release and on relation data the builder can work on: when at least
  one of the four hostname settings is set, \<open>update_hacluster_dns_ha\<close> returns normally with
  \<open>groups\<close> holding \<open>grp_<service>_hostnames\<close>, mapped to the hostname keys of the settings
  that are set, in the order of the loop and joined by blanks, and it leaves the workload
  status alone; when none is set it sets the status \<open>blocked\<close> and raises \<open>DNSHAException\<close>,
  both with the message that the hostname group has no members.
\<close>

theorem dns_hostname_group:
  assumes "lsb_release e ''DISTRIB_RELEASE'' = Some release" and "\<not> release < ''16.04''"
    and "dns_ready rd"
    and "usable = filter (\<lambda>s. config e s \<noteq> PyNone)
                    [''os-admin-hostname'', ''os-internal-hostname'',
                     ''os-public-hostname'', ''os-access-hostname'']"
  shows "(usable \<noteq> [] \<longrightarrow>
            (\<exists>rd' w'.
               update_hacluster_dns_ha e service crm rd w = (Inr (), rd', w') \<and>
               map_of rd' ''groups'' =
                 Some (JDict [(''grp_'' @ service @ ''_hostnames'',
                               join '' '' (map (\<lambda>s. ''res_'' @ service @ ''_'' @ dns_endpoint s @
                                                     ''_hostname'') usable))]) \<and>
               workload_status w' = workload_status w)) \<and>
         (usable = [] \<longrightarrow>
            (\<exists>w'.
               update_hacluster_dns_ha e service crm rd w =
                 (Inl (DNSHAException ''DNS HA: Hostname group has no members.''), rd, w') \<and>
               workload_status w' = Some (''blocked'', ''DNS HA: Hostname group has no members.'')))"
proof -
  have u: "usable = usable_settings e"
    by (simp add: assms(4) usable_settings_def dns_settings_def)
  have k: "(\<lambda>s. ''res_'' @ service @ ''_'' @ dns_endpoint s @ ''_hostname'') =
           (\<lambda>s. hostname_key_of service (dns_endpoint s))"
    by (simp add: hostname_key_of_def fun_eq_iff)
  show ?thesis
    unfolding k u update_hacluster_dns_ha_ok[OF assms(1-3)]
    by (simp add: map_of_dict_set DNSHA_GROUP_NAME_def log_debug_def status_set_def
          workload_status_dns_skipped dns_ha_no_members_msg_def)
qed

text \<open>
  C6, two instances: with the internal and the public hostname set, and with no hostname
  set.
\<close>

theorem dns_hostname_group_witness:
  "map_of (fst (snd (update_hacluster_dns_ha
                       (option_env ''16.04'' [(''os-public-hostname'', PyStr ''nova.example.com''),
                                              (''os-internal-hostname'', PyStr ''nova.internal'')])
                       ''nova'' ''ocf:maas:dns'' fresh_data no_juju))) ''groups'' =
     Some (JDict [(''grp_nova_hostnames'', ''res_nova_int_hostname res_nova_public_hostname'')]) \<and>
   fst (update_hacluster_dns_ha (option_env ''16.04'' []) ''nova'' ''ocf:maas:dns'' fresh_data no_juju) =
     Inl (DNSHAException ''DNS HA: Hostname group has no members.'') \<and>
   workload_status (snd (snd (update_hacluster_dns_ha (option_env ''16.04'' []) ''nova''
                                ''ocf:maas:dns'' fresh_data no_juju))) =
     Some (''blocked'', ''DNS HA: Hostname group has no members.'')"
proof -
  let ?e = "option_env ''16.04'' [(''os-public-hostname'', PyStr ''nova.example.com''),
                                  (''os-internal-hostname'', PyStr ''nova.internal'')]"
  let ?none = "option_env ''16.04'' []"
  have rel: "lsb_release ?e ''DISTRIB_RELEASE'' = Some ''16.04''"
    "lsb_release ?none ''DISTRIB_RELEASE'' = Some ''16.04''"
    by (simp_all add: option_env_def)
  have ok: "\<not> ''16.04'' < ''16.04''"
    by simp
  have ready: "dns_ready fresh_data"
    by (simp add: dns_ready_def fresh_data_def)
  have us: "[''os-internal-hostname'', ''os-public-hostname''] =
      filter (\<lambda>s. config ?e s \<noteq> PyNone)
        [''os-admin-hostname'', ''os-internal-hostname'', ''os-public-hostname'', ''os-access-hostname'']"
    by code_simp
  have us0: "[] =
      filter (\<lambda>s. config ?none s \<noteq> PyNone)
        [''os-admin-hostname'', ''os-internal-hostname'', ''os-public-hostname'', ''os-access-hostname'']"
    by code_simp
  have j: "join '' '' (map (\<lambda>s. ''res_'' @ ''nova'' @ ''_'' @ dns_endpoint s @ ''_hostname'')
                         [''os-internal-hostname'', ''os-public-hostname'']) =
           ''res_nova_int_hostname res_nova_public_hostname''"
    by (simp add: dns_endpoint_def strip_setting_def)
  have a: "\<exists>rd' w'.
        update_hacluster_dns_ha ?e ''nova'' ''ocf:maas:dns'' fresh_data no_juju = (Inr (), rd', w') \<and>
        map_of rd' ''groups'' =
          Some (JDict [(''grp_nova_hostnames'', ''res_nova_int_hostname res_nova_public_hostname'')]) \<and>
        workload_status w' = workload_status no_juju"
    using dns_hostname_group[OF rel(1) ok ready us, of "''nova''" "''ocf:maas:dns''" no_juju]
    unfolding j by simp
  have b: "\<exists>w'.
        update_hacluster_dns_ha ?none ''nova'' ''ocf:maas:dns'' fresh_data no_juju =
          (Inl (DNSHAException ''DNS HA: Hostname group has no members.''), fresh_data, w') \<and>
        workload_status w' = Some (''blocked'', ''DNS HA: Hostname group has no members.'')"
    using dns_hostname_group[OF rel(2) ok ready us0, of "''nova''" "''ocf:maas:dns''" no_juju]
    by simp
  from a b show ?thesis
    by (elim exE conjE) simp
qed

text \<open>
  C7. The release is compared with \<open>16.04\<close> in the lexicographic order of strings. For a
  release below \<open>16.04\<close>, whatever the charm configuration holds, \<open>update_hacluster_dns_ha\<close>
  sets the status \<open>blocked\<close>, raises \<open>DNSHAException\<close> and leaves the relation data and the
  log as they were, so no hostname setting has been looked at. For \<open>16.04\<close> and every
  string above it the check passes without a trace, and the call does not end with that
  error.
\<close>

theorem dns_ha_release_check:
  assumes "lsb_release e ''DISTRIB_RELEASE'' = Some release"
  shows "(release < ''16.04'' \<longrightarrow>
            (\<forall>c. update_hacluster_dns_ha (e\<lparr>config := c\<rparr>) service crm rd w =
                   (Inl (DNSHAException
                           ''DNS HA is only supported on 16.04 and greater versions of Ubuntu.''),
                    rd,
                    w\<lparr>workload_status :=
                        Some (''blocked'',
                              ''DNS HA is only supported on 16.04 and greater versions of Ubuntu.'')\<rparr>))) \<and>
         (\<not> release < ''16.04'' \<longrightarrow>
            assert_charm_supports_dns_ha e w = (Inr True, w) \<and>
            fst (update_hacluster_dns_ha e service crm rd w) \<noteq>
              Inl (DNSHAException
                     ''DNS HA is only supported on 16.04 and greater versions of Ubuntu.''))"
proof (intro conjI impI allI)
  fix c
  assume "release < ''16.04''"
  then show "update_hacluster_dns_ha (e\<lparr>config := c\<rparr>) service crm rd w =
        (Inl (DNSHAException ''DNS HA is only supported on 16.04 and greater versions of Ubuntu.''),
         rd,
         w\<lparr>workload_status :=
             Some (''blocked'',
                   ''DNS HA is only supported on 16.04 and greater versions of Ubuntu.'')\<rparr>)"
    using assms
    by (simp add: update_hacluster_dns_ha_def assert_charm_supports_dns_ha_def status_set_def
          dns_ha_unsupported_msg_def)
next
  assume ok: "\<not> release < ''16.04''"
  show "assert_charm_supports_dns_ha e w = (Inr True, w)"
    by (rule assert_supported[OF assms ok])
  have "fst (update_hacluster_dns_ha e service crm rd w) \<noteq>
        Inl (DNSHAException dns_ha_unsupported_msg)"
    using dns_ha_loop_not_unsupported[of e service crm dns_settings "[]" rd w]
    by (cases "dns_ha_loop e service crm dns_settings [] rd w")
       (auto simp: update_hacluster_dns_ha_def assert_supported[OF assms ok]
          dns_ha_unsupported_msg_def dns_ha_no_members_msg_def split: sum.splits)
  then show "fst (update_hacluster_dns_ha e service crm rd w) \<noteq>
        Inl (DNSHAException ''DNS HA is only supported on 16.04 and greater versions of Ubuntu.'')"
    by (simp add: dns_ha_unsupported_msg_def)
qed

text \<open>
  C7, two instances: the release \<open>14.04\<close> with every hostname set, and the release
  \<open>16.04\<close> with the public hostname set.
\<close>

theorem dns_ha_release_check_witness:
  "''14.04'' < ''16.04'' \<and>
   update_hacluster_dns_ha
     (option_env ''14.04'' [(''os-admin-hostname'', PyStr ''a.example.com''),
                            (''os-internal-hostname'', PyStr ''i.example.com''),
                            (''os-public-hostname'', PyStr ''p.example.com''),
                            (''os-access-hostname'', PyStr ''x.example.com'')])
     ''nova'' ''ocf:maas:dns'' fresh_data no_juju =
     (Inl (DNSHAException ''DNS HA is only supported on 16.04 and greater versions of Ubuntu.''),
      fresh_data,
      no_juju\<lparr>workload_status :=
                Some (''blocked'',
                      ''DNS HA is only supported on 16.04 and greater versions of Ubuntu.'')\<rparr>) \<and>
   \<not> ''16.04'' < ''16.04'' \<and>
   fst (update_hacluster_dns_ha (option_env ''16.04'' [(''os-public-hostname'', PyStr ''p.example.com'')])
          ''nova'' ''ocf:maas:dns'' fresh_data no_juju) \<noteq>
     Inl (DNSHAException ''DNS HA is only supported on 16.04 and greater versions of Ubuntu.'')"
proof -
  let ?opts = "[(''os-admin-hostname'', PyStr ''a.example.com''),
                (''os-internal-hostname'', PyStr ''i.example.com''),
                (''os-public-hostname'', PyStr ''p.example.com''),
                (''os-access-hostname'', PyStr ''x.example.com'')]"
  let ?e = "option_env ''14.04'' ?opts"
  let ?other = "option_env ''16.04'' [(''os-public-hostname'', PyStr ''p.example.com'')]"
  have rel: "lsb_release ?e ''DISTRIB_RELEASE'' = Some ''14.04''"
    "lsb_release ?other ''DISTRIB_RELEASE'' = Some ''16.04''"
    by (simp_all add: option_env_def)
  have lt: "''14.04'' < ''16.04''" and ge: "\<not> ''16.04'' < ''16.04''"
    by simp_all
  have same: "?e\<lparr>config := config ?e\<rparr> = ?e"
    by simp
  from dns_ha_release_check[OF rel(1), of "''nova''" "''ocf:maas:dns''" fresh_data no_juju]
       dns_ha_release_check[OF rel(2), of "''nova''" "''ocf:maas:dns''" fresh_data no_juju]
       lt ge same
  show ?thesis by metis
qed

text \<open>
  C8. For each of the four settings the endpoint type is the setting name without \<open>os-\<close>
  and \<open>-hostname\<close>, with \<open>internal\<close> replaced by \<open>int\<close>: \<open>admin\<close>, \<open>int\<close>, \<open>public\<close> and
  \<open>access\<close>. When \<open>os-internal-hostname\<close> is the only setting that is set (on a supported
  release, on relation data the builder can work on), the builder returns normally and the
  one name it adds to \<open>resources\<close> and to \<open>resource_params\<close> is
  \<open>res_<service>_int_hostname\<close>, which is also the only member of the group; it does not
  add \<open>res_<service>_internal_hostname\<close>.
\<close>

theorem dns_endpoint_types:
  assumes "lsb_release e ''DISTRIB_RELEASE'' = Some release" and "\<not> release < ''16.04''"
    and "dns_ready rd"
    and "config e ''os-internal-hostname'' \<noteq> PyNone"
    and "config e ''os-admin-hostname'' = PyNone"
    and "config e ''os-public-hostname'' = PyNone"
    and "config e ''os-access-hostname'' = PyNone"
  shows "(\<forall>s \<in> set dns_settings.
            endpoint_type_of s =
              Some (if strip_setting s = ''internal'' then ''int'' else strip_setting s)) \<and>
         map strip_setting dns_settings = [''admin'', ''internal'', ''public'', ''access''] \<and>
         endpoint_type_of ''os-internal-hostname'' = Some ''int'' \<and>
         (\<exists>rd' w'.
            update_hacluster_dns_ha e service crm rd w = (Inr (), rd', w') \<and>
            fst ` set (dict_at rd' ''resources'') =
              insert (''res_'' @ service @ ''_int_hostname'') (fst ` set (dict_at rd ''resources'')) \<and>
            fst ` set (dict_at rd' ''resource_params'') =
              insert (''res_'' @ service @ ''_int_hostname'')
                (fst ` set (dict_at rd ''resource_params'')) \<and>
            map_of (dict_at rd' ''resources'') (''res_'' @ service @ ''_int_hostname'') = Some crm \<and>
            (''res_'' @ service @ ''_internal_hostname'' \<in> fst ` set (dict_at rd' ''resources'')
               \<longrightarrow> ''res_'' @ service @ ''_internal_hostname'' \<in> fst ` set (dict_at rd ''resources'')) \<and>
            map_of rd' ''groups'' =
              Some (JDict [(''grp_'' @ service @ ''_hostnames'',
                            ''res_'' @ service @ ''_int_hostname'')]))"
proof -
  have types: "\<forall>s \<in> set dns_settings.
      endpoint_type_of s = Some (if strip_setting s = ''internal'' then ''int'' else strip_setting s)"
    using endpoint_type_of_settings by (simp add: dns_endpoint_def)
  have strip: "map strip_setting dns_settings = [''admin'', ''internal'', ''public'', ''access'']"
    by code_simp
  have int: "endpoint_type_of ''os-internal-hostname'' = Some ''int''"
    by code_simp
  have us: "usable_settings e = [''os-internal-hostname'']"
    using assms(4-7) by (simp add: usable_settings_def dns_settings_def)
  have ep: "dns_endpoint ''os-internal-hostname'' = ''int''"
    by code_simp
  have key: "hostname_key_of service ''int'' = ''res_'' @ service @ ''_int_hostname''"
    by (simp add: hostname_key_of_def)
  let ?grp = "JDict [(DNSHA_GROUP_NAME service,
                      join '' '' (map (\<lambda>s. hostname_key_of service (dns_endpoint s))
                                    (usable_settings e)))]"
  let ?rd' = "dict_set ''groups'' ?grp (dns_data e service crm (usable_settings e) rd)"
  have eq: "update_hacluster_dns_ha e service crm rd w =
        (Inr (), ?rd',
         log_debug (''DNS HA: Hostname group is set with '' @
                    join '' '' (map (\<lambda>s. hostname_key_of service (dns_endpoint s))
                                  (usable_settings e)) @
                    '' as members. Informing the ha relation'')
           (dns_skipped e dns_settings w))"
    unfolding update_hacluster_dns_ha_ok[OF assms(1-3)] by (simp add: us)
  have res: "dict_at ?rd' ''resources'' =
        dict_update (dict_at rd ''resources'') [(''res_'' @ service @ ''_int_hostname'', crm)]"
    unfolding dns_data_resources[OF assms(3)] by (simp add: us ep key)
  have par: "dict_at ?rd' ''resource_params'' =
        dict_update (dict_at rd ''resource_params'')
          [(''res_'' @ service @ ''_int_hostname'',
            dns_params e (config e ''os-internal-hostname'') ''int'')]"
    unfolding dns_data_resource_params[OF assms(3)] by (simp add: us ep key)
  have grp: "map_of ?rd' ''groups'' =
        Some (JDict [(''grp_'' @ service @ ''_hostnames'', ''res_'' @ service @ ''_int_hostname'')])"
    by (simp add: map_of_dict_set us ep key DNSHA_GROUP_NAME_def)
  have k1: "fst ` set (dict_at ?rd' ''resources'') =
        insert (''res_'' @ service @ ''_int_hostname'') (fst ` set (dict_at rd ''resources''))"
    unfolding res keys_dict_update by simp
  have k2: "fst ` set (dict_at ?rd' ''resource_params'') =
        insert (''res_'' @ service @ ''_int_hostname'') (fst ` set (dict_at rd ''resource_params''))"
    unfolding par keys_dict_update by simp
  have v: "map_of (dict_at ?rd' ''resources'') (''res_'' @ service @ ''_int_hostname'') = Some crm"
    unfolding res by (simp add: map_of_dict_update)
  have other: "''res_'' @ service @ ''_internal_hostname'' \<in> fst ` set (dict_at ?rd' ''resources'')
        \<longrightarrow> ''res_'' @ service @ ''_internal_hostname'' \<in> fst ` set (dict_at rd ''resources'')"
    unfolding k1 by simp
  show ?thesis
    using types strip int eq k1 k2 v other grp by blast
qed

text \<open>
  C8, an instance: the service \<open>nova\<close> with the internal hostname \<open>nova.internal\<close>.
\<close>

theorem dns_endpoint_types_witness:
  "map fst (dict_at (fst (snd (update_hacluster_dns_ha
                                 (option_env ''16.04'' [(''os-internal-hostname'', PyStr ''nova.internal'')])
                                 ''nova'' ''ocf:maas:dns'' fresh_data no_juju))) ''resources'') =
     [''res_nova_int_hostname''] \<and>
   fst ` set (dict_at (fst (snd (update_hacluster_dns_ha
                                 (option_env ''16.04'' [(''os-internal-hostname'', PyStr ''nova.internal'')])
                                 ''nova'' ''ocf:maas:dns'' fresh_data no_juju))) ''resources'') =
     {''res_nova_int_hostname''}"
proof -
  let ?e = "option_env ''16.04'' [(''os-internal-hostname'', PyStr ''nova.internal'')]"
  have rel: "lsb_release ?e ''DISTRIB_RELEASE'' = Some ''16.04''"
    by (simp add: option_env_def)
  have ok: "\<not> ''16.04'' < ''16.04''"
    by simp
  have ready: "dns_ready fresh_data"
    by (simp add: dns_ready_def fresh_data_def)
  have c: "config ?e ''os-internal-hostname'' \<noteq> PyNone" "config ?e ''os-admin-hostname'' = PyNone"
    "config ?e ''os-public-hostname'' = PyNone" "config ?e ''os-access-hostname'' = PyNone"
    by (simp_all add: option_env_def)
  have old: "fst ` set (dict_at fresh_data ''resources'') = {}"
    by (simp add: dict_at_def fresh_data_def)
  have keys: "fst ` set (dict_at (fst (snd (update_hacluster_dns_ha ?e ''nova'' ''ocf:maas:dns''
                                             fresh_data no_juju))) ''resources'') =
              {''res_nova_int_hostname''}"
    using dns_endpoint_types[OF rel ok ready c, of "''nova''" "''ocf:maas:dns''" no_juju]
    unfolding old by (elim exE conjE) simp
  have "map fst (dict_at (fst (snd (update_hacluster_dns_ha ?e ''nova'' ''ocf:maas:dns''
                                      fresh_data no_juju))) ''resources'') = [''res_nova_int_hostname'']"
    by code_simp
  with keys show ?thesis by simp
qed

section \<open>Claims about \<open>expect_ha\<close>\<close>

text \<open>
  C9. When the lookup of the related units of the relation type \<open>ha\<close> returns, \<open>expect_ha\<close>
  returns a value that is true (in the sense of Python's truth test: it is \<open>True\<close>, or the
  \<open>vip\<close> or \<open>dns-ha\<close> value itself) exactly when there is at least one related unit or the
  \<open>vip\<close> value is truthy or the \<open>dns-ha\<close> value is truthy. When the lookup fails with
  \<open>NotImplementedError\<close> or with a \<open>KeyError\<close>, no error is raised: the result is that
  of a lookup returning no unit, true exactly when one of the two values is truthy.
\<close>

theorem expect_ha_truthy:
  "(expected_related_units e ''ha'' = Inr units \<longrightarrow>
      (\<exists>v. expect_ha e = Inr v \<and>
           (truthy v \<longleftrightarrow>
              units \<noteq> [] \<or> truthy (config e ''vip'') \<or> truthy (config e ''dns-ha'')))) \<and>
   (expected_related_units e ''ha'' = Inl NotImplementedError \<or>
    expected_related_units e ''ha'' = Inl (KeyError k) \<longrightarrow>
      expect_ha e = expect_ha (e\<lparr>expected_related_units := (\<lambda>r. Inr [])\<rparr>) \<and>
      (\<exists>v. expect_ha e = Inr v \<and>
           (truthy v \<longleftrightarrow> truthy (config e ''vip'') \<or> truthy (config e ''dns-ha''))))"
  by (auto simp: expect_ha_def)

text \<open>
  C9, three instances: one related unit and no option set; the lookup not implemented and
  the \<open>vip\<close> option set; the relation type unknown to the goal state and no option set.
\<close>

theorem expect_ha_truthy_witness:
  "expect_ha (related_env [''hacluster/0''] []) = Inr (PyBool True) \<and>
   expect_ha (option_env ''16.04'' [(''vip'', PyStr ''10.0.0.5'')]) = Inr (PyStr ''10.0.0.5'') \<and>
   truthy (PyStr ''10.0.0.5'') \<and>
   expect_ha ((related_env [] [])\<lparr>expected_related_units := Inl \<circ> KeyError\<rparr>) = Inr PyNone \<and>
   \<not> truthy PyNone"
proof -
  let ?a = "related_env [''hacluster/0''] []"
  let ?b = "option_env ''16.04'' [(''vip'', PyStr ''10.0.0.5'')]"
  let ?c = "(related_env [] [])\<lparr>expected_related_units := Inl \<circ> KeyError\<rparr>"
  have la: "expected_related_units ?a ''ha'' = Inr [''hacluster/0'']"
    by (simp add: related_env_def)
  have lb: "expected_related_units ?b ''ha'' = Inl NotImplementedError \<or>
            expected_related_units ?b ''ha'' = Inl (KeyError ''ha'')"
    by (simp add: option_env_def nova_env_def)
  have lc: "expected_related_units ?c ''ha'' = Inl NotImplementedError \<or>
            expected_related_units ?c ''ha'' = Inl (KeyError ''ha'')"
    by simp
  have cfg: "config ?a ''vip'' = PyNone" "config ?a ''dns-ha'' = PyNone"
    "config ?b ''vip'' = PyStr ''10.0.0.5''"
    "config ?c ''vip'' = PyNone" "config ?c ''dns-ha'' = PyNone"
    by (simp_all add: related_env_def option_env_def)
  note inst = expect_ha_truthy[of ?a "[''hacluster/0'']" "''ha''"]
    expect_ha_truthy[of ?b "[]" "''ha''"] expect_ha_truthy[of ?c "[]" "''ha''"]
  have "expect_ha ?a = Inr (PyBool True)"
    by (simp add: expect_ha_def related_env_def)
  moreover have "expect_ha ?b = Inr (PyStr ''10.0.0.5'')"
    by (simp add: expect_ha_def option_env_def nova_env_def)
  moreover have "expect_ha ?c = Inr PyNone"
    by (simp add: expect_ha_def related_env_def option_env_def)
  ultimately show ?thesis
    using inst la lb lc by simp
qed

section \<open>The JSON encoding\<close>

lemma sort_key_fst_unique:
  assumes "distinct (map fst d)" and "distinct (map fst d')" and "set d = set d'"
  shows "sort_key fst d = sort_key fst d'"
proof -
  let ?xs = "sort_key fst d" and ?ys = "sort_key fst d'"
  have inj: "inj_on fst (set d)"
    using assms(1) by (simp add: distinct_map)
  have dx: "distinct (map fst ?xs)" and dy: "distinct (map fst ?ys)"
    using assms by (simp_all add: distinct_map)
  have "set (map fst ?xs) = set (map fst ?ys)"
    using assms(3) by simp
  then have keys: "map fst ?xs = map fst ?ys"
    using dx dy by (intro sorted_distinct_set_unique) simp_all
  have "inj_on fst (set ?xs \<union> set ?ys)"
    using inj assms(3) by simp
  with keys show ?thesis
    by (rule map_inj_on)
qed

lemma set_join_subset: "set (join sep xs) \<subseteq> set sep \<union> \<Union> (set ` set xs)"
  by (induction sep xs rule: join.induct) auto

lemma hex_digit_no_space: "k < 16 \<Longrightarrow> \<not> is_space (''0123456789abcdef'' ! k)"
proof -
  have "\<forall>c \<in> set ''0123456789abcdef''. \<not> is_space c"
    by (simp add: is_space_def)
  moreover assume "k < 16"
  then have "''0123456789abcdef'' ! k \<in> set ''0123456789abcdef''"
    by (intro nth_mem) simp
  ultimately show ?thesis by blast
qed

lemma blank_code: "(of_char c :: nat) = 32 \<longleftrightarrow> c = CHR '' ''"
proof
  assume "(of_char c :: nat) = 32"
  then have "(of_char c :: nat) = of_char CHR '' ''" by simp
  then show "c = CHR '' ''" by (simp only: of_char_eq_iff)
qed simp

lemma json_escape_char_no_space:
  assumes "c \<noteq> CHR '' ''"
  shows "\<forall>x \<in> set (json_escape_char c). \<not> is_space x"
proof -
  have fixed: "\<not> is_space (CHR 0x5C)" "\<not> is_space (CHR 0x22)" "\<not> is_space CHR ''n''"
    "\<not> is_space CHR ''r''" "\<not> is_space CHR ''t''" "\<not> is_space CHR ''b''"
    "\<not> is_space CHR ''f''" "\<not> is_space CHR ''u''" "\<not> is_space CHR ''0''"
    by (simp_all add: is_space_def)
  have printable: "\<not> is_space c" if "32 \<le> (of_char c :: nat)" "(of_char c :: nat) \<le> 126"
    using that assms blank_code[of c] by (auto simp: is_space_def Let_def)
  show ?thesis
    using fixed printable
    by (auto simp: json_escape_char_def Let_def hex2_def hex_digit_no_space)
qed

lemma json_string_no_space:
  assumes "CHR '' '' \<notin> set s"
  shows "\<forall>x \<in> set (json_string s). \<not> is_space x"
proof -
  have "\<forall>c \<in> set s. \<forall>x \<in> set (json_escape_char c). \<not> is_space x"
    using assms json_escape_char_no_space by metis
  moreover have "\<not> is_space (CHR 0x22)"
    by (simp add: is_space_def)
  ultimately show ?thesis
    by (auto simp: json_string_def)
qed

lemma json_dumps_no_space:
  assumes "\<forall>s \<in> set (strings_of v). CHR '' '' \<notin> set s"
  shows "\<forall>c \<in> set (json_dumps v). \<not> is_space c"
proof (cases v)
  case (JDict d)
  have punct: "\<not> is_space CHR ''{''" "\<not> is_space CHR ''}''" "\<not> is_space CHR '',''"
    "\<not> is_space CHR '':''"
    by (simp_all add: is_space_def)
  have item: "\<forall>c \<in> set (json_item kv). \<not> is_space c" if "kv \<in> set d" for kv
  proof -
    have "CHR '' '' \<notin> set (fst kv)" "CHR '' '' \<notin> set (snd kv)"
      using that assms JDict by auto
    then show ?thesis
      using json_string_no_space punct
      by (auto simp: json_item_def key_separator_def)
  qed
  have "\<forall>c \<in> set (join item_separator (map json_item (sort_key fst d))). \<not> is_space c"
  proof
    fix c
    assume "c \<in> set (join item_separator (map json_item (sort_key fst d)))"
    then have "c \<in> set item_separator \<union> \<Union> (set ` set (map json_item (sort_key fst d)))"
      using set_join_subset by blast
    then show "\<not> is_space c"
      using item punct by (auto simp: item_separator_def)
  qed
  then show ?thesis
    using punct by (auto simp: JDict sort_keys_def)
next
  case (JList xs)
  have punct: "\<not> is_space CHR ''[''" "\<not> is_space CHR '']''" "\<not> is_space CHR '',''"
    by (simp_all add: is_space_def)
  have "\<forall>c \<in> set (join item_separator (map json_string xs)). \<not> is_space c"
  proof
    fix c
    assume "c \<in> set (join item_separator (map json_string xs))"
    then have "c \<in> set item_separator \<union> \<Union> (set ` set (map json_string xs))"
      using set_join_subset by blast
    then show "\<not> is_space c"
      using json_string_no_space assms JList punct by (auto simp: item_separator_def)
  qed
  then show ?thesis
    using punct by (auto simp: JList)
qed

lemma json_dumps_dict_canonical:
  assumes "distinct (map fst d)" and "distinct (map fst d')" and "set d = set d'"
  shows "json_dumps (JDict d) = json_dumps (JDict d')"
  using sort_key_fst_unique[OF assms] by (simp add: sort_keys_def)

end
